theory Spec2Isabelle
  imports Complex_Main
begin

section \<open>Tensors\<close>

text \<open>
  A tensor carries its shape and its entries, as a torch tensor does. The entries are
  nested lists, outermost dimension first. Scalars are real numbers: the floating-point
  rounding of the source is not part of this development.
\<close>

datatype 'a tensor2 = Tensor2 (shape2: "nat \<times> nat") (data2: "'a list list")

datatype 'a tensor3 = Tensor3 (shape3: "nat \<times> nat \<times> nat") (data3: "'a list list list")

definition at2 :: "'a tensor2 \<Rightarrow> nat \<Rightarrow> nat \<Rightarrow> 'a" where
  "at2 t i j = data2 t ! i ! j"

definition at3 :: "'a tensor3 \<Rightarrow> nat \<Rightarrow> nat \<Rightarrow> nat \<Rightarrow> 'a" where
  "at3 t i j k = data3 t ! i ! j ! k"

definition tabulate2 :: "nat \<times> nat \<Rightarrow> (nat \<Rightarrow> nat \<Rightarrow> 'a) \<Rightarrow> 'a tensor2" where
  "tabulate2 sh f =
     Tensor2 sh (map (\<lambda>i. map (\<lambda>j. f i j) [0..<snd sh]) [0..<fst sh])"

definition tabulate3 :: "nat \<times> nat \<times> nat \<Rightarrow> (nat \<Rightarrow> nat \<Rightarrow> nat \<Rightarrow> 'a) \<Rightarrow> 'a tensor3" where
  "tabulate3 sh f =
     Tensor3 sh (map (\<lambda>i. map (\<lambda>j. map (\<lambda>k. f i j k) [0..<snd (snd sh)])
                                 [0..<fst (snd sh)]) [0..<fst sh])"

text \<open>The entries agree with the declared shape.\<close>

definition wf3 :: "'a tensor3 \<Rightarrow> bool" where
  "wf3 t \<longleftrightarrow> length (data3 t) = fst (shape3 t) \<and>
     list_all (\<lambda>p. length p = fst (snd (shape3 t)) \<and>
                    list_all (\<lambda>r. length r = snd (snd (shape3 t))) p) (data3 t)"

text \<open>\<^verbatim>\<open>t.permute(0, 2, 1)\<close>: the last two dimensions are exchanged.\<close>

definition permute_021 :: "'a tensor3 \<Rightarrow> 'a tensor3" where
  "permute_021 t =
     (case shape3 t of (a, b, c) \<Rightarrow> tabulate3 (a, c, b) (\<lambda>i j k. at3 t i k j))"

section \<open>Errors\<close>

datatype error = AssertionError | ZeroDivisionError | RuntimeError | IndexError

section \<open>Slice assignment\<close>

text \<open>
  Python's \<^verbatim>\<open>start:stop\<close> on a dimension of length \<open>n\<close>: a negative bound counts from
  the end, both bounds are clipped to the dimension, and an empty range is allowed. The
  result is the range \<open>lo..<hi\<close> with \<open>lo \<le> hi\<close>.
\<close>

definition clip_index :: "int \<Rightarrow> nat \<Rightarrow> int" where
  "clip_index i n = (if i < 0 then max (i + int n) 0 else min i (int n))"

definition slice_bounds :: "int \<Rightarrow> int \<Rightarrow> nat \<Rightarrow> nat \<times> nat" where
  "slice_bounds start stop n =
     (let lo = clip_index start n; hi = clip_index stop n
      in (nat lo, nat (max lo hi)))"

text \<open>
  A value is broadcast to the shape of the slice it is assigned to: each of its
  dimensions is that of the slice, or 1 (then its single entry is repeated).
\<close>

definition broadcastable :: "nat \<times> nat \<times> nat \<Rightarrow> nat \<times> nat \<times> nat \<Rightarrow> bool" where
  "broadcastable vs ts =
     (case vs of (va, vb, vc) \<Rightarrow> case ts of (ta, tb, tc) \<Rightarrow>
        (va = ta \<or> va = 1) \<and> (vb = tb \<or> vb = 1) \<and> (vc = tc \<or> vc = 1))"

definition bidx :: "nat \<Rightarrow> nat \<Rightarrow> nat" where
  "bidx vd i = (if vd = 1 then 0 else i)"

text \<open>
  \<^verbatim>\<open>t[:, :, start:stop] = v\<close>. A value that cannot be broadcast to the slice raises
  before anything is written.
\<close>

definition setitem_dim2 :: "'a tensor3 \<Rightarrow> int \<Rightarrow> int \<Rightarrow> 'a tensor3 \<Rightarrow> error + 'a tensor3" where
  "setitem_dim2 t start stop v =
     (case shape3 t of (a, b, c) \<Rightarrow> case shape3 v of (va, vb, vc) \<Rightarrow>
        case slice_bounds start stop c of (lo, hi) \<Rightarrow>
          if broadcastable (va, vb, vc) (a, b, hi - lo)
          then Inr (tabulate3 (a, b, c)
                 (\<lambda>i j k. if lo \<le> k \<and> k < hi
                           then at3 v (bidx va i) (bidx vb j) (bidx vc (k - lo))
                           else at3 t i j k))
          else Inl RuntimeError)"

section \<open>Hyperparameters and the SLIP+MoCo-v2 module\<close>

record hparams =
  queue_size :: int
  mocov2_proj_output_dim :: nat
  temperature_clip :: real
  temperature_mocov2 :: real
  ema_decay :: real
  ssl_scale :: real
  temperature :: real
  invariance_lamb :: real
  variance_mu :: real
  covariance_v :: real

text \<open>
  The module's state. \<open>'w\<close> is the type of a sub-module's weights. Tensors that are
  written in place live in \<open>heap\<close>, a store addressed by position; \<open>queue\<close> is the
  address of the buffer registered under that name and \<open>queue_ptr\<close> the value of the
  one-element integer buffer.
\<close>

record 'w slip_mocov2 =
  img_backbone :: 'w
  img_backbone_ema :: 'w
  text_backbone :: 'w
  img_projector :: 'w
  text_projector :: 'w
  mocov2_projector :: 'w
  mocov2_projector_ema :: 'w
  heap :: "real tensor3 list"
  queue :: nat
  queue_ptr :: int

section \<open>The feature queue\<close>

text \<open>
  \<^verbatim>\<open>_dequeue_and_enqueue\<close> (\<^verbatim>\<open>slip_mocov2.py\<close>, lines 49--64). The result carries the
  module as it is when the function returns or raises. The remainder by a batch size of
  0 and, in the last step, by a capacity of 0 raise \<^verbatim>\<open>ZeroDivisionError\<close>.
\<close>

definition dequeue_and_enqueue ::
  "hparams \<Rightarrow> real tensor3 \<Rightarrow> 'w slip_mocov2 \<Rightarrow> (error + unit) \<times> 'w slip_mocov2" where
  "dequeue_and_enqueue hp keys m =
     (let batch_size = fst (snd (shape3 keys));
          ptr = queue_ptr m
      in if batch_size = 0 then (Inl ZeroDivisionError, m)
         else if queue_size hp mod int batch_size \<noteq> 0 then (Inl AssertionError, m)
         else
           (case setitem_dim2 (heap m ! queue m) ptr (ptr + int batch_size)
                   (permute_021 keys) of
              Inl e \<Rightarrow> (Inl e, m)
            | Inr q' \<Rightarrow>
                (let m' = m\<lparr>heap := (heap m)[queue m := q']\<rparr>
                 in if queue_size hp = 0 then (Inl ZeroDivisionError, m')
                    else (Inr (),
                          m'\<lparr>queue_ptr := (ptr + int batch_size) mod queue_size hp\<rparr>))))"

text \<open>
  The module holds a queue of capacity \<open>C\<close> for embeddings of dimension \<open>D\<close>: the buffer
  is allocated, has shape \<open>(2, D, C)\<close>, and \<open>C\<close> is the configured \<^verbatim>\<open>queue_size\<close>.
\<close>

definition queue_ok :: "hparams \<Rightarrow> 'w slip_mocov2 \<Rightarrow> nat \<Rightarrow> nat \<Rightarrow> bool" where
  "queue_ok hp m D C \<longleftrightarrow>
     queue m < length (heap m) \<and> wf3 (heap m ! queue m) \<and>
     shape3 (heap m ! queue m) = (2, D, C) \<and> queue_size hp = int C"

definition keys_ok :: "real tensor3 \<Rightarrow> nat \<Rightarrow> nat \<Rightarrow> bool" where
  "keys_ok keys b D \<longleftrightarrow> wf3 keys \<and> shape3 keys = (2, b, D)"

text \<open>Column \<open>c\<close> of stream \<open>s\<close> of the queue, and row \<open>i\<close> of stream \<open>s\<close> of a batch of keys.\<close>

definition column :: "'a tensor3 \<Rightarrow> nat \<Rightarrow> nat \<Rightarrow> 'a list" where
  "column t s c = map (\<lambda>d. at3 t s d c) [0..<fst (snd (shape3 t))]"

definition row :: "'a tensor3 \<Rightarrow> nat \<Rightarrow> nat \<Rightarrow> 'a list" where
  "row t s i = map (\<lambda>d. at3 t s i d) [0..<snd (snd (shape3 t))]"

definition columns_of :: "'a tensor3 \<Rightarrow> nat \<Rightarrow> 'a list list" where
  "columns_of t s = map (column t s) [0..<snd (snd (shape3 t))]"

definition rows_of :: "'a tensor3 \<Rightarrow> nat \<Rightarrow> 'a list list" where
  "rows_of t s = map (row t s) [0..<fst (snd (shape3 t))]"

text \<open>
  The queue \<open>q\<close> with the rows of \<open>keys\<close> stored as columns from position \<open>p\<close> on:
  what the queue is expected to hold after an enqueue at \<open>p\<close>.
\<close>

definition written :: "real tensor3 \<Rightarrow> int \<Rightarrow> real tensor3 \<Rightarrow> real tensor3" where
  "written q p keys =
     tabulate3 (shape3 q)
       (\<lambda>s d k. if nat p \<le> k \<and> k < nat p + fst (snd (shape3 keys))
                 then at3 keys s (k - nat p) d else at3 q s d k)"

text \<open>
  The enqueue called once per batch of a list, as successive training steps do; the
  first failure ends the run.
\<close>

fun enqueue_all ::
  "hparams \<Rightarrow> real tensor3 list \<Rightarrow> 'w slip_mocov2 \<Rightarrow> (error + unit) \<times> 'w slip_mocov2" where
  "enqueue_all hp [] m = (Inr (), m)"
| "enqueue_all hp (k # ks) m =
     (case dequeue_and_enqueue hp k m of
        (Inl e, m') \<Rightarrow> (Inl e, m')
      | (Inr u, m') \<Rightarrow> enqueue_all hp ks m')"

section \<open>Library operations used by the training objectives\<close>

text \<open>
  \<^verbatim>\<open>torch.nn.functional.normalize(x, dim)\<close> with its defaults \<open>p = 2\<close> and
  \<open>eps = 1e-12\<close>: every vector along \<open>dim\<close> is divided by the larger of its Euclidean
  norm and \<open>eps\<close>.
\<close>

definition l2norm :: "real list \<Rightarrow> real" where
  "l2norm v = sqrt (sum_list (map (\<lambda>x. x\<^sup>2) v))"

definition eps :: real where
  "eps = 1 / 10 ^ 12"

definition normalize_dim1 :: "real tensor2 \<Rightarrow> real tensor2" where
  "normalize_dim1 t =
     tabulate2 (shape2 t)
       (\<lambda>i j. at2 t i j / max (l2norm (map (\<lambda>j'. at2 t i j') [0..<snd (shape2 t)])) eps)"

definition normalize_dim0 :: "real tensor3 \<Rightarrow> real tensor3" where
  "normalize_dim0 t =
     tabulate3 (shape3 t)
       (\<lambda>i j k. at3 t i j k / max (l2norm (map (\<lambda>i'. at3 t i' j k) [0..<fst (shape3 t)])) eps)"

text \<open>
  \<^verbatim>\<open>torch.stack((x, y))\<close> of two matrices, which raises unless their shapes agree, and
  \<^verbatim>\<open>t[i]\<close> for a constant \<open>i \<ge> 0\<close>, which raises when \<open>i\<close> is out of range.
\<close>

definition stack2 :: "'a tensor2 \<Rightarrow> 'a tensor2 \<Rightarrow> error + 'a tensor3" where
  "stack2 x y =
     (if shape2 x = shape2 y
      then Inr (tabulate3 (2, fst (shape2 x), snd (shape2 x))
                  (\<lambda>s i j. if s = 0 then at2 x i j else at2 y i j))
      else Inl RuntimeError)"

definition select0 :: "'a tensor3 \<Rightarrow> nat \<Rightarrow> error + 'a tensor2" where
  "select0 t i =
     (case shape3 t of (a, b, c) \<Rightarrow>
        if i < a then Inr (tabulate2 (b, c) (\<lambda>j k. at3 t i j k)) else Inl IndexError)"

section \<open>Collaborators\<close>

text \<open>
  The functions that the training objectives import from modules outside the files
  modelled here (backbones, projection heads, collectives, losses, the momentum update,
  the batch shuffle) are parameters. \<open>'i\<close> is the type of an image tensor, \<open>'t\<close> of the
  tokenised text, \<open>'w\<close> of a sub-module. A forward pass is a function of the sub-module
  and its input; \<open>batch_shuffle_ddp\<close> receives the permutation it draws as its first
  argument; \<open>criterion\<close> is the NT-Xent instance built by SLIP+SimCLR.
\<close>

record ('i, 't, 'w) collaborators =
  stack_images :: "'i list \<Rightarrow> 'i"
  img_forward :: "'w \<Rightarrow> 'i \<Rightarrow> real tensor2"
  text_forward :: "'w \<Rightarrow> 't \<Rightarrow> real tensor2"
  head_forward :: "'w \<Rightarrow> real tensor2 \<Rightarrow> real tensor2"
  all_gather :: "real tensor2 \<Rightarrow> real tensor2"
  gather :: "real tensor2 \<Rightarrow> real tensor2"
  clip_loss :: "real tensor2 \<Rightarrow> real tensor2 \<Rightarrow> real \<Rightarrow> real list"
  tensor_mean :: "real list \<Rightarrow> real"
  ema :: "'w \<Rightarrow> 'w \<Rightarrow> real \<Rightarrow> 'w"
  batch_shuffle_ddp :: "nat list \<Rightarrow> 'i \<Rightarrow> 'i \<times> nat list"
  batch_unshuffle_ddp :: "real tensor2 \<Rightarrow> nat list \<Rightarrow> real tensor2"
  mocov2_loss :: "real tensor2 \<Rightarrow> real tensor2 \<Rightarrow> real tensor2 \<Rightarrow> real \<Rightarrow> real"
  criterion :: "real tensor2 \<Rightarrow> real tensor2 \<Rightarrow> real"
  vicreg_loss :: "real tensor2 \<Rightarrow> real tensor2 \<Rightarrow> real \<Rightarrow> real \<Rightarrow> real \<Rightarrow> real"

section \<open>SLIP+MoCo-v2\<close>

text \<open>
  The queue part of \<^verbatim>\<open>_build_model\<close> (\<^verbatim>\<open>slip_mocov2.py\<close>, lines 17--46): the
  sub-modules are given, the momentum copies are deep copies, \<open>randn\<close> is the tensor
  drawn by \<^verbatim>\<open>torch.randn(2, mocov2_proj_output_dim, queue_size)\<close>. The buffer is first
  registered with that tensor; the attribute is then rebound to the result of
  \<^verbatim>\<open>normalize(self.queue, dim=0)\<close>, a new tensor.
\<close>

definition build_model ::
  "hparams \<Rightarrow> 'w \<Rightarrow> 'w \<Rightarrow> 'w \<Rightarrow> 'w \<Rightarrow> 'w \<Rightarrow> real tensor3 \<Rightarrow> 'w slip_mocov2" where
  "build_model hp ib tb ip tp mp randn =
     \<lparr>img_backbone = ib, img_backbone_ema = ib, text_backbone = tb,
      img_projector = ip, text_projector = tp,
      mocov2_projector = mp, mocov2_projector_ema = mp,
      heap = [randn, normalize_dim0 randn], queue = 1, queue_ptr = 0\<rparr>"

definition randn_ok :: "hparams \<Rightarrow> real tensor3 \<Rightarrow> bool" where
  "randn_ok hp randn \<longleftrightarrow>
     wf3 randn \<and> shape3 randn = (2, mocov2_proj_output_dim hp, nat (queue_size hp))"

text \<open>
  \<^verbatim>\<open>shared_forward\<close> (\<^verbatim>\<open>slip_mocov2.py\<close>, lines 67--114), in the order of the source:
  the CLIP loss (lines 74--78, the same in SLIP+SimCLR), the momentum update (lines
  82--83), the queries (lines 86--89), the keys (lines 91--101), the copy of the queue
  (line 104), the two MoCo-v2 losses (lines 105--106), the enqueue (lines 109--110) and
  the returned mapping (lines 113--114). \<open>rnd\<close> holds the permutations drawn by the two
  shuffles. \<^verbatim>\<open>clone()\<close> allocates a new tensor with the same entries and
  \<^verbatim>\<open>detach()\<close> shares the storage of its argument, so the local \<^verbatim>\<open>queue\<close> is the
  address of the copy. The mapping is an association list in the order of the source.
\<close>

definition clip_branch ::
  "('i, 't, 'w) collaborators \<Rightarrow> real \<Rightarrow> 'w \<Rightarrow> 'w \<Rightarrow> 'w \<Rightarrow> 'w \<Rightarrow> 'i \<Rightarrow> 't \<Rightarrow> real" where
  "clip_branch E T ib tb ip tp images text_encodings =
     (let image_features = img_forward E ib images;
          text_features = text_forward E tb text_encodings;
          image_embeddings = head_forward E ip image_features;
          text_embeddings = head_forward E tp text_features;
          image_embeddings = all_gather E image_embeddings;
          text_embeddings = all_gather E text_embeddings
      in tensor_mean E (clip_loss E image_embeddings text_embeddings T))"

definition ema_step ::
  "('i, 't, 'w) collaborators \<Rightarrow> hparams \<Rightarrow> 'w slip_mocov2 \<Rightarrow> 'w slip_mocov2" where
  "ema_step E hp m =
     (let m = m\<lparr>img_backbone_ema := ema E (img_backbone m) (img_backbone_ema m) (ema_decay hp)\<rparr>
      in m\<lparr>mocov2_projector_ema :=
              ema E (mocov2_projector m) (mocov2_projector_ema m) (ema_decay hp)\<rparr>)"

definition mocov2_queries ::
  "('i, 't, 'w) collaborators \<Rightarrow> 'w slip_mocov2 \<Rightarrow> 'i \<Rightarrow> 'i \<Rightarrow> real tensor2 \<times> real tensor2" where
  "mocov2_queries E m images1 images2 =
     (let feat1 = img_forward E (img_backbone m) images1;
          feat2 = img_forward E (img_backbone m) images2;
          q1 = head_forward E (mocov2_projector m) feat1;
          q2 = head_forward E (mocov2_projector m) feat2
      in (normalize_dim1 q1, normalize_dim1 q1))"

definition mocov2_keys ::
  "('i, 't, 'w) collaborators \<Rightarrow> nat list \<times> nat list \<Rightarrow> 'w slip_mocov2 \<Rightarrow> 'i \<Rightarrow> 'i
     \<Rightarrow> real tensor2 \<times> real tensor2" where
  "mocov2_keys E rnd m images1 images2 =
     (let (images1_k, idx_unshuffle1) = batch_shuffle_ddp E (fst rnd) images1;
          (images2_k, idx_unshuffle2) = batch_shuffle_ddp E (snd rnd) images2;
          feat1_ema = img_forward E (img_backbone_ema m) images1_k;
          feat2_ema = img_forward E (img_backbone_ema m) images2_k;
          k1 = head_forward E (mocov2_projector_ema m) feat1_ema;
          k2 = head_forward E (mocov2_projector_ema m) feat2_ema;
          k1 = normalize_dim1 k1;
          k2 = normalize_dim1 k2
      in (batch_unshuffle_ddp E k1 idx_unshuffle1, batch_unshuffle_ddp E k2 idx_unshuffle2))"

definition clone_detach :: "'w slip_mocov2 \<Rightarrow> nat \<Rightarrow> nat \<times> 'w slip_mocov2" where
  "clone_detach m a = (length (heap m), m\<lparr>heap := heap m @ [heap m ! a]\<rparr>)"

definition slip_mocov2_shared_forward ::
  "('i, 't, 'w) collaborators \<Rightarrow> hparams \<Rightarrow> nat list \<times> nat list \<Rightarrow> 'i list \<times> 'i list \<times> 't
     \<Rightarrow> 'w slip_mocov2 \<Rightarrow> (error + (string \<times> real) list) \<times> 'w slip_mocov2" where
  "slip_mocov2_shared_forward E hp rnd batch m =
     (case batch of (images1, images2, text_encodings) \<Rightarrow>
        let images1 = stack_images E images1;
            images2 = stack_images E images2;
            c_loss = clip_branch E (temperature_clip hp) (img_backbone m) (text_backbone m)
                       (img_projector m) (text_projector m) images1 text_encodings;
            m = ema_step E hp m;
            (q1, q2) = mocov2_queries E m images1 images2;
            (k1, k2) = mocov2_keys E rnd m images1 images2;
            (snapshot, m) = clone_detach m (queue m)
        in case select0 (heap m ! snapshot) 1 of
             Inl e \<Rightarrow> (Inl e, m)
           | Inr negatives1 \<Rightarrow>
          (case select0 (heap m ! snapshot) 0 of
             Inl e \<Rightarrow> (Inl e, m)
           | Inr negatives0 \<Rightarrow>
          (let ssl_loss = (mocov2_loss E q1 k2 negatives1 (temperature_mocov2 hp)
                           + mocov2_loss E q2 k1 negatives0 (temperature_mocov2 hp)) / 2
           in case stack2 (gather E k1) (gather E k2) of
                Inl e \<Rightarrow> (Inl e, m)
              | Inr keys \<Rightarrow>
             (case dequeue_and_enqueue hp keys m of
                (Inl e, m') \<Rightarrow> (Inl e, m')
              | (Inr u, m') \<Rightarrow>
                  (let loss = c_loss + ssl_scale hp * ssl_loss
                   in (Inr [(''loss'', loss), (''clip_loss'', c_loss), (''ssl_loss'', ssl_loss)],
                       m'))))))"

text \<open>
  \<^verbatim>\<open>learnable_params\<close> (\<^verbatim>\<open>slip_mocov2.py\<close>, lines 134--139). A group records its tag, the
  sub-module whose parameters it holds, and these parameters. The query returns the
  module along with the groups.
\<close>

datatype submodule =
  Img_backbone | Img_backbone_ema | Text_backbone | Img_projector | Text_projector
  | Mocov2_projector | Mocov2_projector_ema | Simclr_projector

record 'w param_group =
  group_type :: string
  owner :: submodule
  params :: 'w

definition slip_mocov2_learnable_params ::
  "'w slip_mocov2 \<Rightarrow> 'w param_group list \<times> 'w slip_mocov2" where
  "slip_mocov2_learnable_params m =
     ([\<lparr>group_type = ''backbone'', owner = Img_backbone, params = img_backbone m\<rparr>,
       \<lparr>group_type = ''projector'', owner = Mocov2_projector, params = mocov2_projector m\<rparr>],
      m)"

section \<open>SLIP+SimCLR\<close>

text \<open>
  \<^verbatim>\<open>shared_forward\<close> (\<^verbatim>\<open>slip_simclr.py\<close>, lines 41--61) and \<^verbatim>\<open>learnable_params\<close>
  (lines 81--89).
\<close>

record 'w slip_simclr =
  simclr_img_backbone :: 'w
  simclr_text_backbone :: 'w
  simclr_img_projector :: 'w
  simclr_text_projector :: 'w
  simclr_projector :: 'w

definition slip_simclr_shared_forward ::
  "('i, 't, 'w) collaborators \<Rightarrow> hparams \<Rightarrow> 'i list \<times> 'i list \<times> 'i list \<times> 't
     \<Rightarrow> 'w slip_simclr \<Rightarrow> (string \<times> real) list" where
  "slip_simclr_shared_forward E hp batch m =
     (case batch of (images_clip, images_ssl1, images_ssl2, text_encodings) \<Rightarrow>
        let images_clip = stack_images E images_clip;
            images_ssl1 = stack_images E images_ssl1;
            images_ssl2 = stack_images E images_ssl2;
            c_loss = clip_branch E (temperature hp) (simclr_img_backbone m)
                       (simclr_text_backbone m) (simclr_img_projector m)
                       (simclr_text_projector m) images_clip text_encodings;
            feat1 = img_forward E (simclr_img_backbone m) images_ssl1;
            feat2 = img_forward E (simclr_img_backbone m) images_ssl2;
            z1 = head_forward E (simclr_projector m) feat1;
            z2 = head_forward E (simclr_projector m) feat2;
            ssl_loss = criterion E z1 z2;
            loss = c_loss + ssl_scale hp * ssl_loss
        in [(''loss'', loss), (''clip_loss'', c_loss), (''ssl_loss'', ssl_loss)])"

definition slip_simclr_learnable_params ::
  "'w slip_simclr \<Rightarrow> 'w param_group list \<times> 'w slip_simclr" where
  "slip_simclr_learnable_params m =
     ([\<lparr>group_type = ''backbone'', owner = Img_backbone, params = simclr_img_backbone m\<rparr>,
       \<lparr>group_type = ''backbone'', owner = Text_backbone, params = simclr_text_backbone m\<rparr>,
       \<lparr>group_type = ''projector'', owner = Img_projector, params = simclr_img_projector m\<rparr>,
       \<lparr>group_type = ''projector'', owner = Text_projector, params = simclr_text_projector m\<rparr>,
       \<lparr>group_type = ''projector'', owner = Simclr_projector, params = simclr_projector m\<rparr>],
      m)"

section \<open>VICReg\<close>

text \<open>
  \<^verbatim>\<open>shared_forward\<close> (\<^verbatim>\<open>vicreg.py\<close>, lines 31--42).
\<close>

record 'w vicreg =
  vicreg_img_backbone :: 'w
  vicreg_projector :: 'w

definition vicreg_shared_forward ::
  "('i, 't, 'w) collaborators \<Rightarrow> hparams \<Rightarrow> 'i list \<times> 'i list \<Rightarrow> 'w vicreg
     \<Rightarrow> (string \<times> real) list" where
  "vicreg_shared_forward E hp batch m =
     (case batch of (images_ssl1, images_ssl2) \<Rightarrow>
        let images_ssl1 = stack_images E images_ssl1;
            images_ssl2 = stack_images E images_ssl2;
            feat1 = img_forward E (vicreg_img_backbone m) images_ssl1;
            feat2 = img_forward E (vicreg_img_backbone m) images_ssl2;
            z1 = head_forward E (vicreg_projector m) feat1;
            z2 = head_forward E (vicreg_projector m) feat2;
            ssl_loss = vicreg_loss E z1 z2 (invariance_lamb hp) (variance_mu hp) (covariance_v hp)
        in [(''loss'', ssl_loss)])"

text \<open>
  The entries of a returned mapping other than \<^verbatim>\<open>"loss"\<close>.
\<close>

definition sub_losses :: "(string \<times> real) list \<Rightarrow> (string \<times> real) list" where
  "sub_losses d = filter (\<lambda>kv. fst kv \<noteq> ''loss'') d"

section \<open>Batch shuffle and unshuffle\<close>

text \<open>
  Modelled from the spec: \<^verbatim>\<open>_batch_shuffle_ddp\<close> and \<^verbatim>\<open>_batch_unshuffle_ddp\<close> are
  imported from \<^verbatim>\<open>model_utils.misc_utils\<close>, which is not among the source files. The spec
  (section 4.3) describes them over all replicas at once. \<open>world\<close> lists the batch of
  every replica in rank order. \<open>shuffle\<close> gathers the batches into one global batch,
  reorders it by the global permutation \<open>idx_shuffle\<close>, and returns to each replica the
  slice of its rank together with the inverse permutation restricted to that rank.
  \<open>unshuffle\<close> gathers again and gives each replica the rows named by its inverse
  record.
\<close>

definition index_of :: "nat list \<Rightarrow> nat \<Rightarrow> nat" where
  "index_of p x = length (takeWhile (\<lambda>y. y \<noteq> x) p)"

definition argsort :: "nat list \<Rightarrow> nat list" where
  "argsort p = map (index_of p) [0..<length p]"

definition rank_slice :: "nat \<Rightarrow> nat \<Rightarrow> 'a list \<Rightarrow> 'a list" where
  "rank_slice b r xs = take b (drop (r * b) xs)"

definition is_permutation :: "nat list \<Rightarrow> nat \<Rightarrow> bool" where
  "is_permutation p n \<longleftrightarrow> length p = n \<and> list_all (\<lambda>i. i \<in> set p) [0..<n]"

text \<open>
  Modelled from the spec: \<^verbatim>\<open>_batch_shuffle_ddp\<close> (spec, section 4.3, \<open>shuffle(x)\<close>),
  for all replicas at once.
\<close>

definition shuffle :: "nat list \<Rightarrow> 'a list list \<Rightarrow> ('a list \<times> nat list) list" where
  "shuffle idx_shuffle world =
     (let x_gather = concat world;
          num_replicas = length world;
          batch_size_this = length x_gather div num_replicas;
          idx_unshuffle = argsort idx_shuffle;
          x_shuffled = map (\<lambda>i. x_gather ! i) idx_shuffle
      in map (\<lambda>r. (rank_slice batch_size_this r x_shuffled,
                    rank_slice batch_size_this r idx_unshuffle)) [0..<num_replicas])"

text \<open>
  Modelled from the spec: \<^verbatim>\<open>_batch_unshuffle_ddp\<close> (spec, section 4.3,
  \<open>unshuffle(x, inverse_record)\<close>), for all replicas at once.
\<close>

definition unshuffle :: "('a list \<times> nat list) list \<Rightarrow> 'a list list" where
  "unshuffle world =
     (let x_gather = concat (map fst world)
      in map (\<lambda>(x, inverse_record). map (\<lambda>i. x_gather ! i) inverse_record) world)"

section \<open>Concrete inputs\<close>

text \<open>
  A module whose store holds the queue \<open>q\<close> alone, with write pointer \<open>p\<close> and
  sub-modules without weights; hyperparameters with capacity \<open>C\<close> and every other
  entry set to 1 (the projector's output dimension to 0).
\<close>

definition mk_module :: "real tensor3 \<Rightarrow> int \<Rightarrow> unit slip_mocov2" where
  "mk_module q p =
     \<lparr>img_backbone = (), img_backbone_ema = (), text_backbone = (), img_projector = (),
      text_projector = (), mocov2_projector = (), mocov2_projector_ema = (),
      heap = [q], queue = 0, queue_ptr = p\<rparr>"

definition mk_hparams :: "int \<Rightarrow> hparams" where
  "mk_hparams C =
     \<lparr>queue_size = C, mocov2_proj_output_dim = 0, temperature_clip = 1,
      temperature_mocov2 = 1, ema_decay = 1, ssl_scale = 1, temperature = 1,
      invariance_lamb = 1, variance_mu = 1, covariance_v = 1\<rparr>"

definition zeros3 :: "nat \<times> nat \<times> nat \<Rightarrow> real tensor3" where
  "zeros3 sh = tabulate3 sh (\<lambda>i j k. 0)"

text \<open>
  Collaborators over images that are \<open>1 \<times> 2\<close> matrices: stacking concatenates their
  rows, backbones and heads are the identity, the collectives are those of a single
  replica, the shuffle keeps the order, and the losses are simple functions that make
  their arguments visible.
\<close>

definition ex_collaborators :: "(real tensor2, unit, unit) collaborators" where
  "ex_collaborators =
     \<lparr>stack_images = (\<lambda>xs. Tensor2 (length xs, 2) (concat (map data2 xs))),
      img_forward = (\<lambda>w x. x),
      text_forward = (\<lambda>w t. Tensor2 (1, 2) [[1, 0]]),
      head_forward = (\<lambda>w x. x),
      all_gather = (\<lambda>x. x),
      gather = (\<lambda>x. x),
      clip_loss = (\<lambda>a b T. [3]),
      tensor_mean = (\<lambda>xs. sum_list xs / real (length xs)),
      ema = (\<lambda>online target decay. target),
      batch_shuffle_ddp = (\<lambda>p x. (x, p)),
      batch_unshuffle_ddp = (\<lambda>k idx. k),
      mocov2_loss = (\<lambda>q k n T. at2 q 0 0 + 2 * at2 k 0 1 + 4 * at2 n 0 0),
      criterion = (\<lambda>z1 z2. 5),
      vicreg_loss = (\<lambda>z1 z2 l mu nu. 7)\<rparr>"

definition ex_hparams :: hparams where
  "ex_hparams = (mk_hparams 4)\<lparr>mocov2_proj_output_dim := 2, ssl_scale := 2\<rparr>"

definition ex_queue :: "real tensor3" where
  "ex_queue = Tensor3 (2, 2, 4) [[[1, 0, 1, 0], [0, 1, 0, 1]], [[0, 1, 0, 1], [1, 0, 1, 0]]]"

definition ex_batch :: "real tensor2 list \<times> real tensor2 list \<times> unit" where
  "ex_batch = ([Tensor2 (1, 2) [[3, 4]]], [Tensor2 (1, 2) [[4, 3]]], ())"

section \<open>Facts about tensors\<close>

lemma at3_tabulate3:
  "i < a \<Longrightarrow> j < b \<Longrightarrow> k < c \<Longrightarrow> at3 (tabulate3 (a, b, c) f) i j k = f i j k"
  by (simp add: at3_def tabulate3_def)

lemma shape3_tabulate3: "shape3 (tabulate3 sh f) = sh"
  by (simp add: tabulate3_def)

lemma wf3_tabulate3: "wf3 (tabulate3 sh f)"
  by (simp add: wf3_def tabulate3_def list_all_iff)

lemma tabulate3_cong:
  "(\<And>i j k. i < a \<Longrightarrow> j < b \<Longrightarrow> k < c \<Longrightarrow> f i j k = g i j k)
   \<Longrightarrow> tabulate3 (a, b, c) f = tabulate3 (a, b, c) g"
  by (simp add: tabulate3_def)

lemma slice_bounds_inside:
  "0 \<le> p \<Longrightarrow> p + int b \<le> int n \<Longrightarrow> slice_bounds p (p + int b) n = (nat p, nat p + b)"
  by (auto simp: slice_bounds_def clip_index_def Let_def max_def min_def nat_add_distrib)

lemma at3_permute_021:
  "shape3 t = (a, b, c) \<Longrightarrow> i < a \<Longrightarrow> j < c \<Longrightarrow> k < b \<Longrightarrow> at3 (permute_021 t) i j k = at3 t i k j"
  by (simp add: permute_021_def at3_tabulate3)

lemma shape3_permute_021:
  "shape3 t = (a, b, c) \<Longrightarrow> shape3 (permute_021 t) = (a, c, b)"
  by (simp add: permute_021_def shape3_tabulate3)

lemma at3_written:
  assumes "shape3 q = (a, D, C)" "s < a" "d < D" "k < C"
  shows "at3 (written q p keys) s d k =
     (if nat p \<le> k \<and> k < nat p + fst (snd (shape3 keys))
      then at3 keys s (k - nat p) d else at3 q s d k)"
  using assms by (simp add: written_def at3_tabulate3)

lemma column_written:
  assumes "shape3 q = (2, D, C)" "shape3 keys = (2, b, D)" "s < 2" "c < C"
  shows "column (written q p keys) s c =
     (if nat p \<le> c \<and> c < nat p + b then row keys s (c - nat p) else column q s c)"
  using assms by (auto simp: column_def row_def written_def shape3_tabulate3 at3_tabulate3)

section \<open>Arithmetic of blocks and concatenation\<close>

lemma div_block:
  fixes b c j :: nat
  assumes "j * b \<le> c" "c < j * b + b"
  shows "c div b = j" "c mod b = c - j * b"
proof -
  show d: "c div b = j" using assms by (intro div_nat_eqI) (simp_all add: mult.commute)
  show "c mod b = c - j * b" using d by (metis minus_mult_div_eq_mod mult.commute)
qed

lemma div_above:
  fixes b c j :: nat
  assumes "0 < b" "(j + 1) * b \<le> c"
  shows "j + 1 \<le> c div b"
  using assms by (metis div_le_mono nonzero_mult_div_cancel_right less_numeral_extra(3))

lemma next_block:
  fixes b C j n :: nat
  assumes "0 < b" "(j + Suc n) * b \<le> C"
  shows "j * b + b \<le> C" "0 < n \<Longrightarrow> j * b + b < C"
proof -
  have "(j + Suc n) * b = j * b + b + n * b" by (simp add: algebra_simps)
  then show "j * b + b \<le> C" using assms by linarith
  assume "0 < n"
  then have "b \<le> n * b" by simp
  then show "j * b + b < C" using assms \<open>(j + Suc n) * b = j * b + b + n * b\<close> by linarith
qed

lemma nth_concat_uniform:
  assumes "\<forall>xs\<in>set xss. length xs = b" "c < length xss * b"
  shows "concat xss ! c = xss ! (c div b) ! (c mod b)"
  using assms
proof (induction xss arbitrary: c)
  case Nil
  then show ?case by simp
next
  case (Cons x xss)
  show ?case
  proof (cases "c < b")
    case True
    then show ?thesis using Cons.prems by (simp add: nth_append)
  next
    case False
    then have ge: "b \<le> c" by simp
    have b: "0 < b" using Cons.prems(2) by (cases b) auto
    have "c - b < length xss * b" using Cons.prems(2) ge by simp
    then have "concat xss ! (c - b) = xss ! ((c - b) div b) ! ((c - b) mod b)"
      using Cons.IH Cons.prems(1) by simp
    moreover have "c div b = Suc ((c - b) div b)" using ge b by (simp add: le_div_geq)
    moreover have "c mod b = (c - b) mod b" using ge by (simp add: le_mod_geq)
    ultimately show ?thesis using False Cons.prems(1) by (simp add: nth_append)
  qed
qed

lemma length_concat_uniform:
  "\<forall>xs\<in>set xss. length xs = b \<Longrightarrow> length (concat xss) = length xss * b"
  by (induction xss) simp_all

lemma count_list_distinct:
  "distinct xs \<Longrightarrow> x \<in> set xs \<Longrightarrow> count_list xs x = 1"
  by (induction xs) (auto simp: count_list_0_iff)

section \<open>One enqueue\<close>

lemma setitem_inside:
  assumes "shape3 q = (2, D, C)" "shape3 keys = (2, b, D)" "0 \<le> p" "p + int b \<le> int C"
  shows "setitem_dim2 q p (p + int b) (permute_021 keys) = Inr (written q p keys)"
proof -
  have sb: "slice_bounds p (p + int b) C = (nat p, nat p + b)"
    using assms by (simp add: slice_bounds_inside)
  have sp: "shape3 (permute_021 keys) = (2, D, b)"
    using assms by (simp add: shape3_permute_021)
  have bc: "broadcastable (2, D, b) (2, D, nat p + b - nat p)"
    by (simp add: broadcastable_def)
  have eq: "tabulate3 (2, D, C)
       (\<lambda>i j k. if nat p \<le> k \<and> k < nat p + b
                 then at3 (permute_021 keys) (bidx 2 i) (bidx D j) (bidx b (k - nat p))
                 else at3 q i j k)
     = tabulate3 (2, D, C)
       (\<lambda>s d k. if nat p \<le> k \<and> k < nat p + b then at3 keys s (k - nat p) d else at3 q s d k)"
  proof (rule tabulate3_cong)
    fix i j k :: nat assume "i < 2" "j < D" "k < C"
    then show "(if nat p \<le> k \<and> k < nat p + b
          then at3 (permute_021 keys) (bidx 2 i) (bidx D j) (bidx b (k - nat p))
          else at3 q i j k) =
         (if nat p \<le> k \<and> k < nat p + b then at3 keys i (k - nat p) j else at3 q i j k)"
      using assms(2) by (auto simp: bidx_def at3_permute_021)
  qed
  show ?thesis
    using assms(1,2) sb sp bc eq by (simp add: setitem_dim2_def written_def)
qed

lemma enqueue_step:
  assumes "queue_ok hp m D C" "keys_ok keys b D" "0 < b" "b dvd C"
    "0 \<le> queue_ptr m" "queue_ptr m + int b \<le> int C"
  shows "dequeue_and_enqueue hp keys m =
     (Inr (), m\<lparr>heap := (heap m)[queue m := written (heap m ! queue m) (queue_ptr m) keys],
               queue_ptr := (queue_ptr m + int b) mod int C\<rparr>)"
proof -
  have C: "0 < C" using assms by linarith
  have md: "int C mod int b = 0" using assms(4) by (metis int_dvd_int_iff mod_0_imp_dvd dvd_imp_mod_0)
  have si: "setitem_dim2 (heap m ! queue m) (queue_ptr m) (queue_ptr m + int b) (permute_021 keys)
      = Inr (written (heap m ! queue m) (queue_ptr m) keys)"
    using assms by (intro setitem_inside) (auto simp: queue_ok_def keys_ok_def)
  show ?thesis
    using assms(1,2,3) C md si
    by (simp add: dequeue_and_enqueue_def Let_def queue_ok_def keys_ok_def)
qed

lemma queue_ok_step:
  assumes "queue_ok hp m D C"
  shows "queue_ok hp (m\<lparr>heap := (heap m)[queue m := written (heap m ! queue m) p keys],
               queue_ptr := r\<rparr>) D C"
  using assms by (simp add: queue_ok_def written_def wf3_tabulate3 shape3_tabulate3)

text \<open>
  Claim C1, as amended. The queue has shape \<open>(2, D, C)\<close>, the keys have shape
  \<open>(2, b, D)\<close>, \<open>b\<close> divides \<open>C\<close>, the pointer satisfies \<open>0 \<le> ptr < C\<close> and, in
  addition, \<open>ptr + b \<le> C\<close> (which holds when the pointer is a multiple of \<open>b\<close>). Then
  the enqueue returns normally; entry \<open>(s, d, k)\<close> of the queue is entry \<open>(s, k - ptr, d)\<close>
  of the keys for \<open>ptr \<le> k < ptr + b\<close> and is unchanged for every other column; the
  pointer becomes \<open>(ptr + b) mod C\<close>, which lies in \<open>0..<C\<close>; and nothing but the queue
  buffer and the pointer changes.
\<close>

theorem enqueue_writes_and_advances:
  assumes "queue_ok hp m D C" "keys_ok keys b D" "b dvd C"
    "0 \<le> queue_ptr m" "queue_ptr m < int C" "queue_ptr m + int b \<le> int C"
  shows "\<exists>m'. dequeue_and_enqueue hp keys m = (Inr (), m') \<and>
     queue_ok hp m' D C \<and>
     (\<forall>s<2. \<forall>d<D. \<forall>k<C.
        at3 (heap m' ! queue m') s d k =
          (if nat (queue_ptr m) \<le> k \<and> k < nat (queue_ptr m) + b
           then at3 keys s (k - nat (queue_ptr m)) d
           else at3 (heap m ! queue m) s d k)) \<and>
     queue_ptr m' = (queue_ptr m + int b) mod int C \<and>
     0 \<le> queue_ptr m' \<and> queue_ptr m' < int C \<and>
     m' = m\<lparr>heap := (heap m)[queue m := heap m' ! queue m'], queue_ptr := queue_ptr m'\<rparr>"
proof -
  have b: "0 < b" using assms(3,4,5) by (cases "b = 0") auto
  let ?q' = "written (heap m ! queue m) (queue_ptr m) keys"
  let ?m' = "m\<lparr>heap := (heap m)[queue m := ?q'],
               queue_ptr := (queue_ptr m + int b) mod int C\<rparr>"
  have step: "dequeue_and_enqueue hp keys m = (Inr (), ?m')"
    using assms(1,2) b assms(3,4,6) by (rule enqueue_step)
  have len: "queue m < length (heap m)" and sh: "shape3 (heap m ! queue m) = (2, D, C)"
    using assms(1) by (simp_all add: queue_ok_def)
  have kb: "fst (snd (shape3 keys)) = b" using assms(2) by (simp add: keys_ok_def)
  have q': "heap ?m' ! queue ?m' = ?q'" using len by simp
  have ok: "queue_ok hp ?m' D C" using assms(1) by (rule queue_ok_step)
  have cells: "\<forall>s<2. \<forall>d<D. \<forall>k<C.
        at3 (heap ?m' ! queue ?m') s d k =
          (if nat (queue_ptr m) \<le> k \<and> k < nat (queue_ptr m) + b
           then at3 keys s (k - nat (queue_ptr m)) d
           else at3 (heap m ! queue m) s d k)"
    unfolding q' using sh kb by (simp add: at3_written)
  have C: "0 < int C" using assms(4,5) by linarith
  have ptr: "queue_ptr ?m' = (queue_ptr m + int b) mod int C" by simp
  have rng: "0 \<le> queue_ptr ?m'" "queue_ptr ?m' < int C" using C by simp_all
  have frame: "?m' = m\<lparr>heap := (heap m)[queue m := heap ?m' ! queue ?m'],
        queue_ptr := queue_ptr ?m'\<rparr>"
    using len by simp
  show ?thesis
    using step ok cells ptr rng frame by blast
qed

theorem enqueue_writes_and_advances_witness:
  "queue_ok (mk_hparams 4) (mk_module (Tensor3 (2, 1, 4) [[[5, 6, 7, 8]], [[9, 10, 11, 12]]]) 2) 1 4 \<and>
   keys_ok (Tensor3 (2, 2, 1) [[[1], [2]], [[3], [4]]]) 2 1 \<and>
   (\<exists>m'. dequeue_and_enqueue (mk_hparams 4) (Tensor3 (2, 2, 1) [[[1], [2]], [[3], [4]]])
            (mk_module (Tensor3 (2, 1, 4) [[[5, 6, 7, 8]], [[9, 10, 11, 12]]]) 2) = (Inr (), m') \<and>
         queue_ptr m' = 0 \<and>
         at3 (heap m' ! queue m') 0 0 1 = 6 \<and> at3 (heap m' ! queue m') 0 0 2 = 1 \<and>
         at3 (heap m' ! queue m') 1 0 3 = 4)"
proof -
  let ?hp = "mk_hparams 4"
  let ?m = "mk_module (Tensor3 (2, 1, 4) [[[5, 6, 7, 8]], [[9, 10, 11, 12]]]) 2"
  let ?k = "Tensor3 (2, 2, 1) [[[1], [2]], [[3], [4]]] :: real tensor3"
  have h1: "queue_ok ?hp ?m 1 4"
    by (simp add: queue_ok_def mk_hparams_def mk_module_def wf3_def)
  have h2: "keys_ok ?k 2 1" by (simp add: keys_ok_def wf3_def)
  have h3: "(2::nat) dvd 4" by simp
  have h4: "0 \<le> queue_ptr ?m" by (simp add: mk_module_def)
  have h5: "queue_ptr ?m < int 4" by (simp add: mk_module_def)
  have h6: "queue_ptr ?m + int 2 \<le> int 4" by (simp add: mk_module_def)
  have q: "heap ?m ! queue ?m = Tensor3 (2, 1, 4) [[[5, 6, 7, 8]], [[9, 10, 11, 12]]]"
    by (simp add: mk_module_def)
  from enqueue_writes_and_advances[OF h1 h2 h3 h4 h5 h6]
  obtain m' where r: "dequeue_and_enqueue ?hp ?k ?m = (Inr (), m')"
    and c: "\<forall>s<2. \<forall>d<1. \<forall>k<4.
        at3 (heap m' ! queue m') s d k =
          (if nat (queue_ptr ?m) \<le> k \<and> k < nat (queue_ptr ?m) + 2
           then at3 ?k s (k - nat (queue_ptr ?m)) d
           else at3 (heap ?m ! queue ?m) s d k)"
    and p: "queue_ptr m' = (queue_ptr ?m + int 2) mod int 4"
    by blast
  have p0: "queue_ptr m' = 0" using p by (simp add: mk_module_def)
  have np: "nat (queue_ptr ?m) = 2" by (simp add: mk_module_def)
  have c1: "at3 (heap m' ! queue m') 0 0 1 = 6"
    using c[rule_format, of 0 0 1] unfolding np q by (simp add: at3_def)
  have c2: "at3 (heap m' ! queue m') 0 0 2 = 1"
    using c[rule_format, of 0 0 2] unfolding np q by (simp add: at3_def)
  have c3: "at3 (heap m' ! queue m') 1 0 3 = 4"
    using c[rule_format, of 1 0 3] unfolding np q by (simp add: at3_def)
  show ?thesis using h1 h2 r p0 c1 c2 c3 by blast
qed

text \<open>
  The claim without the additional bound fails: with capacity 4, batch size 2 and
  pointer 3 the slice \<^verbatim>\<open>3:5\<close> is clipped to one column, the two key columns cannot be
  broadcast to it, and the assignment raises. Neither the queue nor the pointer changes.
\<close>

theorem enqueue_unaligned_counterexample:
  "queue_ok (mk_hparams 4) (mk_module (Tensor3 (2, 1, 4) [[[5, 6, 7, 8]], [[9, 10, 11, 12]]]) 3) 1 4 \<and>
   keys_ok (Tensor3 (2, 2, 1) [[[1], [2]], [[3], [4]]]) 2 1 \<and>
   (2::nat) dvd 4 \<and>
   0 \<le> queue_ptr (mk_module (Tensor3 (2, 1, 4) [[[5, 6, 7, 8]], [[9, 10, 11, 12]]]) 3) \<and>
   queue_ptr (mk_module (Tensor3 (2, 1, 4) [[[5, 6, 7, 8]], [[9, 10, 11, 12]]]) 3) < 4 \<and>
   dequeue_and_enqueue (mk_hparams 4) (Tensor3 (2, 2, 1) [[[1], [2]], [[3], [4]]])
     (mk_module (Tensor3 (2, 1, 4) [[[5, 6, 7, 8]], [[9, 10, 11, 12]]]) 3)
   = (Inl RuntimeError, mk_module (Tensor3 (2, 1, 4) [[[5, 6, 7, 8]], [[9, 10, 11, 12]]]) 3)"
  by (simp add: queue_ok_def keys_ok_def wf3_def mk_hparams_def mk_module_def
      dequeue_and_enqueue_def setitem_dim2_def slice_bounds_def clip_index_def
      broadcastable_def permute_021_def tabulate3_def)

text \<open>
  Claim C5. When the batch size of the keys does not divide the configured capacity,
  the enqueue raises and leaves the module, hence the queue and the pointer, as it was.
\<close>

theorem enqueue_rejects_indivisible:
  assumes "\<not> int (fst (snd (shape3 keys))) dvd queue_size hp"
  shows "\<exists>e. dequeue_and_enqueue hp keys m = (Inl e, m)"
proof (cases "fst (snd (shape3 keys)) = 0")
  case True
  then show ?thesis by (simp add: dequeue_and_enqueue_def)
next
  case False
  moreover have "queue_size hp mod int (fst (snd (shape3 keys))) \<noteq> 0"
    using assms by (simp add: dvd_eq_mod_eq_0)
  ultimately show ?thesis by (simp add: dequeue_and_enqueue_def)
qed

theorem enqueue_rejects_indivisible_witness:
  "\<not> int (fst (snd (shape3 (Tensor3 (2, 3, 1) [[[1], [2], [3]], [[4], [5], [6]]] :: real tensor3))))
       dvd queue_size (mk_hparams 8) \<and>
   dequeue_and_enqueue (mk_hparams 8) (Tensor3 (2, 3, 1) [[[1], [2], [3]], [[4], [5], [6]]])
     (mk_module (zeros3 (2, 1, 8)) 0)
   = (Inl AssertionError, mk_module (zeros3 (2, 1, 8)) 0)"
proof -
  let ?k = "Tensor3 (2, 3, 1) [[[1], [2], [3]], [[4], [5], [6]]] :: real tensor3"
  have h: "\<not> int (fst (snd (shape3 ?k))) dvd queue_size (mk_hparams 8)"
    by (simp add: mk_hparams_def)
  from enqueue_rejects_indivisible[OF h, of "mk_module (zeros3 (2, 1, 8)) 0"]
  obtain e where r: "dequeue_and_enqueue (mk_hparams 8) ?k (mk_module (zeros3 (2, 1, 8)) 0)
      = (Inl e, mk_module (zeros3 (2, 1, 8)) 0)" by blast
  have "fst (dequeue_and_enqueue (mk_hparams 8) ?k (mk_module (zeros3 (2, 1, 8)) 0))
      = Inl AssertionError"
    by (simp add: dequeue_and_enqueue_def mk_hparams_def)
  then have "e = AssertionError" using r by simp
  then show ?thesis using h r by simp
qed

section \<open>A full cycle of enqueues\<close>

lemma enqueue_all_from:
  assumes "queue_ok hp m D C" "\<forall>k\<in>set ks. keys_ok k b D" "0 < b" "b dvd C"
    "queue_ptr m = int (j * b)" "(j + length ks) * b \<le> C" "j * b < C"
  shows "\<exists>m'. enqueue_all hp ks m = (Inr (), m') \<and> queue_ok hp m' D C \<and>
     queue_ptr m' = int ((j + length ks) * b) mod int C \<and>
     (\<forall>s<2. \<forall>c<C. column (heap m' ! queue m') s c =
        (if j * b \<le> c \<and> c < (j + length ks) * b
         then row (ks ! (c div b - j)) s (c mod b)
         else column (heap m ! queue m) s c))"
  using assms
proof (induction ks arbitrary: m j)
  case Nil
  then show ?case by (auto simp: queue_ok_def)
next
  case (Cons k ks)
  let ?q' = "written (heap m ! queue m) (queue_ptr m) k"
  let ?m1 = "m\<lparr>heap := (heap m)[queue m := ?q'],
               queue_ptr := (queue_ptr m + int b) mod int C\<rparr>"
  have kok: "keys_ok k b D" using Cons.prems(2) by simp
  have le1: "j * b + b \<le> C"
    using next_block(1)[OF Cons.prems(3), of j "length ks" C] Cons.prems(6) by simp
  have le1i: "int (j * b) + int b \<le> int C"
    using le1 by (metis of_nat_add of_nat_le_iff)
  have step: "dequeue_and_enqueue hp k m = (Inr (), ?m1)"
    using Cons.prems(1) kok Cons.prems(3,4)
    by (rule enqueue_step) (use Cons.prems(5) le1i in simp_all)
  have ok1: "queue_ok hp ?m1 D C" using Cons.prems(1) by (rule queue_ok_step)
  have len: "queue m < length (heap m)" and sh: "shape3 (heap m ! queue m) = (2, D, C)"
    using Cons.prems(1) by (simp_all add: queue_ok_def)
  have ksh: "shape3 k = (2, b, D)" using kok by (simp add: keys_ok_def)
  have q1: "heap ?m1 ! queue ?m1 = ?q'" using len by simp
  have np: "nat (queue_ptr m) = j * b" using Cons.prems(5) by (simp only: nat_int)
  have col1: "column (heap ?m1 ! queue ?m1) s c =
     (if j * b \<le> c \<and> c < j * b + b then row k s (c - j * b) else column (heap m ! queue m) s c)"
    if "s < 2" "c < C" for s c
    unfolding q1 using column_written[OF sh ksh that, of "queue_ptr m"] np by simp
  have first: "row ((k # ks) ! (c div b - j)) s (c mod b) = row k s (c - j * b)"
    if "j * b \<le> c" "c < j * b + b" for s c
    using div_block[OF that] by simp
  show ?case
  proof (cases ks)
    case Nil
    have "enqueue_all hp (k # ks) m = (Inr (), ?m1)" using step Nil by simp
    moreover have "queue_ptr ?m1 = int ((j + length (k # ks)) * b) mod int C"
      using Cons.prems(5) Nil by (simp add: algebra_simps)
    moreover have "\<forall>s<2. \<forall>c<C. column (heap ?m1 ! queue ?m1) s c =
        (if j * b \<le> c \<and> c < (j + length (k # ks)) * b
         then row ((k # ks) ! (c div b - j)) s (c mod b)
         else column (heap m ! queue m) s c)"
      using col1 first Nil by (simp add: algebra_simps)
    ultimately show ?thesis using ok1 by blast
  next
    case (Cons k' ks')
    then have pos: "0 < length ks" by simp
    have lt: "j * b + b < C"
      using next_block(2)[OF Cons.prems(3) _ pos, of j C] Cons.prems(6) by simp
    have lti: "int (j * b) + int b < int C"
      using lt by (metis of_nat_add of_nat_less_iff)
    have p1: "queue_ptr ?m1 = int ((j + 1) * b)"
      using Cons.prems(5) lti by (simp add: algebra_simps)
    have "\<exists>m'. enqueue_all hp ks ?m1 = (Inr (), m') \<and> queue_ok hp m' D C \<and>
       queue_ptr m' = int ((j + 1 + length ks) * b) mod int C \<and>
       (\<forall>s<2. \<forall>c<C. column (heap m' ! queue m') s c =
          (if (j + 1) * b \<le> c \<and> c < (j + 1 + length ks) * b
           then row (ks ! (c div b - (j + 1))) s (c mod b)
           else column (heap ?m1 ! queue ?m1) s c))"
      using ok1 _ Cons.prems(3,4) p1
    proof (rule Cons.IH)
      show "\<forall>k\<in>set ks. keys_ok k b D" using Cons.prems(2) by simp
      show "(j + 1 + length ks) * b \<le> C" using Cons.prems(6) by simp
      show "(j + 1) * b < C" using lt by (simp add: algebra_simps)
    qed
    then obtain m' where run: "enqueue_all hp ks ?m1 = (Inr (), m')"
      and ok': "queue_ok hp m' D C"
      and p': "queue_ptr m' = int ((j + 1 + length ks) * b) mod int C"
      and col': "\<And>s c. s < 2 \<Longrightarrow> c < C \<Longrightarrow> column (heap m' ! queue m') s c =
          (if (j + 1) * b \<le> c \<and> c < (j + 1 + length ks) * b
           then row (ks ! (c div b - (j + 1))) s (c mod b)
           else column (heap ?m1 ! queue ?m1) s c)"
      by blast
    have "enqueue_all hp (k # ks) m = (Inr (), m')" using step run by simp
    moreover have "queue_ptr m' = int ((j + length (k # ks)) * b) mod int C"
      using p' by simp
    moreover have "\<forall>s<2. \<forall>c<C. column (heap m' ! queue m') s c =
        (if j * b \<le> c \<and> c < (j + length (k # ks)) * b
         then row ((k # ks) ! (c div b - j)) s (c mod b)
         else column (heap m ! queue m) s c)"
    proof (intro allI impI)
      fix s c :: nat assume s: "s < 2" and c: "c < C"
      consider "c < j * b" | "j * b \<le> c" "c < j * b + b" | "(j + 1) * b \<le> c"
        by (force simp: algebra_simps)
      then show "column (heap m' ! queue m') s c =
        (if j * b \<le> c \<and> c < (j + length (k # ks)) * b
         then row ((k # ks) ! (c div b - j)) s (c mod b)
         else column (heap m ! queue m) s c)"
      proof cases
        case 1
        then show ?thesis using col'[OF s c] col1[OF s c] by (simp add: algebra_simps)
      next
        case 2
        then have "c < (j + length (k # ks)) * b" by (simp add: algebra_simps) 
        then show ?thesis using 2 col'[OF s c] col1[OF s c] first[OF 2] by (simp add: algebra_simps)
      next
        case 3
        then have ge: "j + 1 \<le> c div b" using Cons.prems(3) by (intro div_above)
        then have "c div b - j = Suc (c div b - (j + 1))" by linarith
        then have idx: "(k # ks) ! (c div b - j) = ks ! (c div b - (j + 1))"
          by (simp only: nth_Cons_Suc)
        have "j * b \<le> c" using 3 by (simp add: algebra_simps)
        then show ?thesis using 3 idx col'[OF s c] col1[OF s c] by (simp add: algebra_simps)
      qed
    qed
    ultimately show ?thesis using ok' by blast
  qed
qed

text \<open>
  Claim C4. From pointer 0, enqueueing \<open>C div b\<close> batches of \<open>b\<close> rows each, where \<open>b\<close>
  divides \<open>C\<close>, returns normally with the pointer back at 0. Column \<open>c\<close> of each stream
  of the queue is row \<open>c mod b\<close> of batch \<open>c div b\<close>, so the columns of the queue, in
  order, are the rows of the batches, in order; when these rows are pairwise distinct,
  each of them occurs exactly once among the columns. The witness is the scenario with
  capacity 8, batch size 4 and dimension 2.
\<close>

theorem enqueue_full_cycle:
  assumes "queue_ok hp m D C" "queue_ptr m = 0" "0 < b" "b dvd C"
    "length ks = C div b" "\<forall>k\<in>set ks. keys_ok k b D"
  shows "\<exists>m'. enqueue_all hp ks m = (Inr (), m') \<and> queue_ptr m' = 0 \<and>
     queue_ok hp m' D C \<and>
     (\<forall>s<2. \<forall>c<C. column (heap m' ! queue m') s c = row (ks ! (c div b)) s (c mod b)) \<and>
     (\<forall>s<2. columns_of (heap m' ! queue m') s = concat (map (\<lambda>k. rows_of k s) ks)) \<and>
     (\<forall>s<2. distinct (concat (map (\<lambda>k. rows_of k s) ks)) \<longrightarrow>
        (\<forall>k\<in>set ks. \<forall>r\<in>set (rows_of k s).
           count_list (columns_of (heap m' ! queue m') s) r = 1))"
proof (cases "C = 0")
  case True
  then have "ks = []" using assms(5) by simp
  then show ?thesis using True assms(1,2) by (auto simp: queue_ok_def columns_of_def)
next
  case False
  have nb: "length ks * b = C" using assms(4,5) by simp
  have "\<exists>m'. enqueue_all hp ks m = (Inr (), m') \<and> queue_ok hp m' D C \<and>
     queue_ptr m' = int ((0 + length ks) * b) mod int C \<and>
     (\<forall>s<2. \<forall>c<C. column (heap m' ! queue m') s c =
        (if 0 * b \<le> c \<and> c < (0 + length ks) * b
         then row (ks ! (c div b - 0)) s (c mod b)
         else column (heap m ! queue m) s c))"
    using assms(1,6,3,4)
  proof (rule enqueue_all_from)
    show "queue_ptr m = int (0 * b)" using assms(2) by simp
    show "(0 + length ks) * b \<le> C" using nb by simp
    show "0 * b < C" using False by simp
  qed
  then obtain m' where run: "enqueue_all hp ks m = (Inr (), m')"
    and ok: "queue_ok hp m' D C"
    and p: "queue_ptr m' = int ((0 + length ks) * b) mod int C"
    and col: "\<And>s c. s < 2 \<Longrightarrow> c < C \<Longrightarrow> column (heap m' ! queue m') s c =
        (if 0 * b \<le> c \<and> c < (0 + length ks) * b
         then row (ks ! (c div b - 0)) s (c mod b)
         else column (heap m ! queue m) s c)"
    by blast
  have p0: "queue_ptr m' = 0" using p nb by simp
  have col0: "column (heap m' ! queue m') s c = row (ks ! (c div b)) s (c mod b)"
    if "s < 2" "c < C" for s c
    using col[OF that] that nb by simp
  have sh: "shape3 (heap m' ! queue m') = (2, D, C)" using ok by (simp add: queue_ok_def)
  have cols: "columns_of (heap m' ! queue m') s = concat (map (\<lambda>k. rows_of k s) ks)"
    if s: "s < 2" for s
  proof (rule nth_equalityI)
    have uni: "\<forall>xs\<in>set (map (\<lambda>k. rows_of k s) ks). length xs = b"
      using assms(6) by (auto simp: rows_of_def keys_ok_def)
    have lc: "length (concat (map (\<lambda>k. rows_of k s) ks)) = length ks * b"
      using length_concat_uniform[OF uni] by simp
    show "length (columns_of (heap m' ! queue m') s) = length (concat (map (\<lambda>k. rows_of k s) ks))"
      using lc nb sh by (simp add: columns_of_def)
    fix c assume "c < length (columns_of (heap m' ! queue m') s)"
    then have c: "c < C" using sh by (simp add: columns_of_def)
    have j: "c div b < length ks" using c nb assms(3)
      by (metis less_mult_imp_div_less)
    have i: "c mod b < b" using assms(3) by simp
    have kj: "fst (snd (shape3 (ks ! (c div b)))) = b"
      using assms(6) j by (auto simp: keys_ok_def)
    have "concat (map (\<lambda>k. rows_of k s) ks) ! c
        = map (\<lambda>k. rows_of k s) ks ! (c div b) ! (c mod b)"
      using uni c nb by (intro nth_concat_uniform) simp_all
    also have "\<dots> = row (ks ! (c div b)) s (c mod b)"
      using j i kj by (simp add: rows_of_def)
    finally show "columns_of (heap m' ! queue m') s ! c = concat (map (\<lambda>k. rows_of k s) ks) ! c"
      using col0[OF s c] c sh by (simp add: columns_of_def)
  qed
  have once: "count_list (columns_of (heap m' ! queue m') s) r = 1"
    if "s < 2" "distinct (concat (map (\<lambda>k. rows_of k s) ks))" "k \<in> set ks" "r \<in> set (rows_of k s)"
    for s k r
  proof -
    have "r \<in> set (concat (map (\<lambda>k. rows_of k s) ks))" using that(3,4) by auto
    then show ?thesis using cols[OF that(1)] that(2) by (simp add: count_list_distinct)
  qed
  show ?thesis using run p0 ok col0 cols once by blast
qed

theorem enqueue_full_cycle_witness:
  "queue_ok (mk_hparams 8) (mk_module (zeros3 (2, 2, 8)) 0) 2 8 \<and>
   keys_ok (Tensor3 (2, 4, 2) [[[1, 0], [1, 0], [1, 0], [1, 0]], [[1, 0], [1, 0], [1, 0], [1, 0]]]) 4 2 \<and>
   keys_ok (Tensor3 (2, 4, 2) [[[0, 1], [0, 1], [0, 1], [0, 1]], [[0, 1], [0, 1], [0, 1], [0, 1]]]) 4 2 \<and>
   enqueue_all (mk_hparams 8)
     [Tensor3 (2, 4, 2) [[[1, 0], [1, 0], [1, 0], [1, 0]], [[1, 0], [1, 0], [1, 0], [1, 0]]],
      Tensor3 (2, 4, 2) [[[0, 1], [0, 1], [0, 1], [0, 1]], [[0, 1], [0, 1], [0, 1], [0, 1]]]]
     (mk_module (zeros3 (2, 2, 8)) 0)
   = (Inr (), mk_module (Tensor3 (2, 2, 8)
        [[[1, 1, 1, 1, 0, 0, 0, 0], [0, 0, 0, 0, 1, 1, 1, 1]],
         [[1, 1, 1, 1, 0, 0, 0, 0], [0, 0, 0, 0, 1, 1, 1, 1]]]) 0)"
proof -
  let ?a = "Tensor3 (2, 4, 2) [[[1, 0], [1, 0], [1, 0], [1, 0]], [[1, 0], [1, 0], [1, 0], [1, 0]]] :: real tensor3"
  let ?b = "Tensor3 (2, 4, 2) [[[0, 1], [0, 1], [0, 1], [0, 1]], [[0, 1], [0, 1], [0, 1], [0, 1]]] :: real tensor3"
  let ?m = "mk_module (zeros3 (2, 2, 8)) 0"
  have h1: "queue_ok (mk_hparams 8) ?m 2 8"
    by (simp add: queue_ok_def mk_hparams_def mk_module_def zeros3_def wf3_tabulate3 shape3_tabulate3)
  have h2: "queue_ptr ?m = 0" by (simp add: mk_module_def)
  have h3: "(0::nat) < 4" by simp
  have h4: "(4::nat) dvd 8" by simp
  have h5: "length [?a, ?b] = 8 div 4" by simp
  have h6: "\<forall>k\<in>set [?a, ?b]. keys_ok k 4 2" by (simp add: keys_ok_def wf3_def)
  from enqueue_full_cycle[OF h1 h2 h3 h4 h5 h6]
  obtain m' where r: "enqueue_all (mk_hparams 8) [?a, ?b] ?m = (Inr (), m')"
    and p: "queue_ptr m' = 0" by blast
  have e: "enqueue_all (mk_hparams 8) [?a, ?b] ?m = (Inr (), mk_module (Tensor3 (2, 2, 8)
        [[[1, 1, 1, 1, 0, 0, 0, 0], [0, 0, 0, 0, 1, 1, 1, 1]],
         [[1, 1, 1, 1, 0, 0, 0, 0], [0, 0, 0, 0, 1, 1, 1, 1]]]) 0)"
    by code_simp
  have ka: "keys_ok ?a 4 2" and kb: "keys_ok ?b 4 2" using h6 by simp_all
  show ?thesis using h1 ka kb r e by simp
qed

section \<open>Evaluation of the concrete inputs\<close>

lemma sqrt25: "sqrt 25 = 5"
proof -
  have "sqrt 25 = sqrt (5\<^sup>2)" by simp
  also have "\<dots> = \<bar>5\<bar>" by (rule real_sqrt_abs)
  also have "\<dots> = 5" by simp
  finally show ?thesis .
qed

lemmas ex_defs = ex_hparams_def ex_queue_def ex_batch_def ex_collaborators_def mk_hparams_def mk_module_def

lemmas eval_defs = normalize_dim1_def normalize_dim0_def tabulate2_def tabulate3_def at2_def at3_def l2norm_def
  eps_def sqrt25 upt_conv_Cons stack2_def select0_def

lemma ex_queries:
  "mocov2_queries ex_collaborators (mk_module ex_queue 0) (Tensor2 (1, 2) [[3, 4]]) (Tensor2 (1, 2) [[4, 3]])
   = (Tensor2 (1, 2) [[3/5, 4/5]], Tensor2 (1, 2) [[3/5, 4/5]])"
  by (simp add: mocov2_queries_def ex_defs eval_defs)

lemma ex_keys:
  "mocov2_keys ex_collaborators ([0], [0]) (mk_module ex_queue 0) (Tensor2 (1, 2) [[3, 4]]) (Tensor2 (1, 2) [[4, 3]])
   = (Tensor2 (1, 2) [[3/5, 4/5]], Tensor2 (1, 2) [[4/5, 3/5]])"
  by (simp add: mocov2_keys_def ex_defs eval_defs)

lemma ex_ema: "ema_step ex_collaborators ex_hparams (mk_module ex_queue 0) = mk_module ex_queue 0"
  by (simp add: ema_step_def ex_defs)

lemma ex_run:
  "slip_mocov2_shared_forward ex_collaborators ex_hparams ([0], [0]) ex_batch (mk_module ex_queue 0)
   = (Inr [(''loss'', 11), (''clip_loss'', 3), (''ssl_loss'', 4)],
      (mk_module (Tensor3 (2, 2, 4) [[[3/5, 0, 1, 0], [4/5, 1, 0, 1]], [[4/5, 1, 0, 1], [3/5, 0, 1, 0]]]) 1)
        \<lparr>heap := [Tensor3 (2, 2, 4) [[[3/5, 0, 1, 0], [4/5, 1, 0, 1]], [[4/5, 1, 0, 1], [3/5, 0, 1, 0]]],
                  ex_queue]\<rparr>)"
proof -
  have s: "stack_images ex_collaborators [Tensor2 (1, 2) [[3, 4]]] = Tensor2 (1, 2) [[3, 4]]"
     "stack_images ex_collaborators [Tensor2 (1, 2) [[4, 3]]] = Tensor2 (1, 2) [[4, 3]]"
    by (simp_all add: ex_defs)
  have c: "clip_branch ex_collaborators T () () () () x () = 3" for T x
    by (simp add: clip_branch_def ex_defs)
  have cl: "clone_detach (mk_module ex_queue 0) (queue (mk_module ex_queue 0))
      = (1, (mk_module ex_queue 0)\<lparr>heap := [ex_queue, ex_queue]\<rparr>)"
    by (simp add: clone_detach_def mk_module_def)
  have n1: "select0 ex_queue 1 = Inr (Tensor2 (2, 4) [[0, 1, 0, 1], [1, 0, 1, 0]])"
    and n0: "select0 ex_queue 0 = Inr (Tensor2 (2, 4) [[1, 0, 1, 0], [0, 1, 0, 1]])"
    by (simp_all add: ex_queue_def eval_defs)
  have st: "stack2 (gather ex_collaborators (Tensor2 (1, 2) [[3/5, 4/5]]))
       (gather ex_collaborators (Tensor2 (1, 2) [[4/5, 3/5]]))
     = Inr (Tensor3 (2, 1, 2) [[[3/5, 4/5]], [[4/5, 3/5]]])"
    by (simp add: ex_defs eval_defs)
  have en: "dequeue_and_enqueue ex_hparams (Tensor3 (2, 1, 2) [[[3/5, 4/5]], [[4/5, 3/5]]])
       ((mk_module ex_queue 0)\<lparr>heap := [ex_queue, ex_queue]\<rparr>)
     = (Inr (), (mk_module (Tensor3 (2, 2, 4) [[[3/5, 0, 1, 0], [4/5, 1, 0, 1]], [[4/5, 1, 0, 1], [3/5, 0, 1, 0]]]) 1)
        \<lparr>heap := [Tensor3 (2, 2, 4) [[[3/5, 0, 1, 0], [4/5, 1, 0, 1]], [[4/5, 1, 0, 1], [3/5, 0, 1, 0]]],
                  ex_queue]\<rparr>)"
    by (simp add: dequeue_and_enqueue_def ex_defs setitem_dim2_def slice_bounds_def clip_index_def
        broadcastable_def permute_021_def bidx_def tabulate3_def at3_def upt_conv_Cons)
  have l: "mocov2_loss ex_collaborators q k n T = at2 q 0 0 + 2 * at2 k 0 1 + 4 * at2 n 0 0" for q k n T
    by (simp add: ex_defs)
  have hq: "heap ((mk_module ex_queue 0)\<lparr>heap := [ex_queue, ex_queue]\<rparr>) ! 1 = ex_queue"
    by simp
  have tp: "img_backbone (mk_module ex_queue 0) = ()" by simp
  have sc: "ssl_scale ex_hparams = 2" by (simp add: ex_hparams_def)
  show ?thesis
    unfolding slip_mocov2_shared_forward_def ex_batch_def
    by (simp add: Let_def s c ex_ema ex_queries ex_keys cl hq n1 n0 st en l sc at2_def
          del: One_nat_def)
qed

section \<open>The returned mappings\<close>

lemma enqueue_returns:
  assumes "dequeue_and_enqueue hp keys m = (Inr u, m')"
  shows "\<exists>q'. setitem_dim2 (heap m ! queue m) (queue_ptr m)
                 (queue_ptr m + int (fst (snd (shape3 keys)))) (permute_021 keys) = Inr q' \<and>
     m' = m\<lparr>heap := (heap m)[queue m := q'],
            queue_ptr := (queue_ptr m + int (fst (snd (shape3 keys)))) mod queue_size hp\<rparr>"
  using assms
  by (auto simp: dequeue_and_enqueue_def Let_def split: if_splits sum.splits)

lemma slip_mocov2_dict:
  assumes "slip_mocov2_shared_forward E hp rnd batch m = (Inr d, m')"
  shows "map fst d = [''loss'', ''clip_loss'', ''ssl_loss''] \<and>
     snd (d ! 0) = snd (d ! 1) + ssl_scale hp * snd (d ! 2)"
  using assms
  by (auto simp: slip_mocov2_shared_forward_def Let_def split: prod.splits sum.splits)

lemma slip_simclr_dict:
  "map fst (slip_simclr_shared_forward E hp batch n) = [''loss'', ''clip_loss'', ''ssl_loss''] \<and>
     snd (slip_simclr_shared_forward E hp batch n ! 0)
       = snd (slip_simclr_shared_forward E hp batch n ! 1)
         + ssl_scale hp * snd (slip_simclr_shared_forward E hp batch n ! 2)"
  by (simp add: slip_simclr_shared_forward_def Let_def split: prod.splits)

lemma dict3_lookup:
  assumes "map fst d = [''loss'', ''clip_loss'', ''ssl_loss'']"
  shows "map_of d ''loss'' = Some (snd (d ! 0)) \<and> map_of d ''clip_loss'' = Some (snd (d ! 1)) \<and>
     map_of d ''ssl_loss'' = Some (snd (d ! 2))"
proof -
  obtain a b c where d: "d = [a, b, c]"
    using assms by (cases d; cases "tl d"; cases "tl (tl d)") auto
  show ?thesis using assms unfolding d by (cases a; cases b; cases c) simp
qed

text \<open>
  Claim C7. Whenever SLIP+MoCo-v2's \<^verbatim>\<open>shared_forward\<close> returns, and always for
  SLIP+SimCLR's, the mapping holds \<^verbatim>\<open>clip_loss\<close> and \<^verbatim>\<open>ssl_loss\<close>, and its \<^verbatim>\<open>loss\<close> is
  \<^verbatim>\<open>clip_loss + ssl_scale * ssl_loss\<close> of these two values.
\<close>

theorem slip_loss_decomposition:
  "(slip_mocov2_shared_forward E hp rnd batch m = (Inr d, m') \<longrightarrow>
      (\<exists>c s. map_of d ''clip_loss'' = Some c \<and> map_of d ''ssl_loss'' = Some s \<and>
             map_of d ''loss'' = Some (c + ssl_scale hp * s))) \<and>
   (\<exists>c s. map_of (slip_simclr_shared_forward E' hp' batch' n) ''clip_loss'' = Some c \<and>
          map_of (slip_simclr_shared_forward E' hp' batch' n) ''ssl_loss'' = Some s \<and>
          map_of (slip_simclr_shared_forward E' hp' batch' n) ''loss''
            = Some (c + ssl_scale hp' * s))"
proof (intro conjI impI)
  assume r: "slip_mocov2_shared_forward E hp rnd batch m = (Inr d, m')"
  from slip_mocov2_dict[OF r] dict3_lookup[of d]
  show "\<exists>c s. map_of d ''clip_loss'' = Some c \<and> map_of d ''ssl_loss'' = Some s \<and>
             map_of d ''loss'' = Some (c + ssl_scale hp * s)"
    by metis
next
  from slip_simclr_dict[of E' hp' batch' n]
    dict3_lookup[of "slip_simclr_shared_forward E' hp' batch' n"]
  show "\<exists>c s. map_of (slip_simclr_shared_forward E' hp' batch' n) ''clip_loss'' = Some c \<and>
          map_of (slip_simclr_shared_forward E' hp' batch' n) ''ssl_loss'' = Some s \<and>
          map_of (slip_simclr_shared_forward E' hp' batch' n) ''loss''
            = Some (c + ssl_scale hp' * s)"
    by metis
qed

theorem slip_loss_decomposition_witness:
  "fst (slip_mocov2_shared_forward ex_collaborators ex_hparams ([0], [0]) ex_batch
          (mk_module ex_queue 0))
     = Inr [(''loss'', 11), (''clip_loss'', 3), (''ssl_loss'', 4)] \<and>
   ssl_scale ex_hparams = 2 \<and>
   (\<exists>c s. map_of [(''loss'', 11 :: real), (''clip_loss'', 3), (''ssl_loss'', 4)] ''clip_loss'' = Some c \<and>
          map_of [(''loss'', 11 :: real), (''clip_loss'', 3), (''ssl_loss'', 4)] ''ssl_loss'' = Some s \<and>
          map_of [(''loss'', 11 :: real), (''clip_loss'', 3), (''ssl_loss'', 4)] ''loss''
            = Some (c + ssl_scale ex_hparams * s))"
proof -
  note r = ex_run
  have sc: "ssl_scale ex_hparams = 2" by (simp add: ex_hparams_def)
  from slip_loss_decomposition[THEN conjunct1, rule_format, OF r]
  show ?thesis using r sc by simp
qed

text \<open>
  Claim C6, as amended. Whenever SLIP+MoCo-v2's \<^verbatim>\<open>shared_forward\<close> returns, and always
  for SLIP+SimCLR's, the keys of the mapping are \<^verbatim>\<open>loss\<close>, \<^verbatim>\<open>clip_loss\<close> and
  \<^verbatim>\<open>ssl_loss\<close>. VICReg's mapping has the single key \<^verbatim>\<open>loss\<close>, whose value is the
  combined VICReg loss.
\<close>

theorem shared_forward_keys:
  "(slip_mocov2_shared_forward E hp rnd batch m = (Inr d, m') \<longrightarrow>
      map fst d = [''loss'', ''clip_loss'', ''ssl_loss'']) \<and>
   map fst (slip_simclr_shared_forward E' hp' batch' n) = [''loss'', ''clip_loss'', ''ssl_loss''] \<and>
   vicreg_shared_forward E'' hp'' (images_ssl1, images_ssl2) v =
     [(''loss'',
       vicreg_loss E''
         (head_forward E'' (vicreg_projector v)
            (img_forward E'' (vicreg_img_backbone v) (stack_images E'' images_ssl1)))
         (head_forward E'' (vicreg_projector v)
            (img_forward E'' (vicreg_img_backbone v) (stack_images E'' images_ssl2)))
         (invariance_lamb hp'') (variance_mu hp'') (covariance_v hp''))]"
proof (intro conjI impI)
  assume "slip_mocov2_shared_forward E hp rnd batch m = (Inr d, m')"
  then show "map fst d = [''loss'', ''clip_loss'', ''ssl_loss'']"
    using slip_mocov2_dict by blast
next
  show "map fst (slip_simclr_shared_forward E' hp' batch' n) = [''loss'', ''clip_loss'', ''ssl_loss'']"
    using slip_simclr_dict by blast
next
  show "vicreg_shared_forward E'' hp'' (images_ssl1, images_ssl2) v =
     [(''loss'',
       vicreg_loss E''
         (head_forward E'' (vicreg_projector v)
            (img_forward E'' (vicreg_img_backbone v) (stack_images E'' images_ssl1)))
         (head_forward E'' (vicreg_projector v)
            (img_forward E'' (vicreg_img_backbone v) (stack_images E'' images_ssl2)))
         (invariance_lamb hp'') (variance_mu hp'') (covariance_v hp''))]"
    by (simp add: vicreg_shared_forward_def Let_def)
qed

theorem shared_forward_keys_witness:
  "fst (slip_mocov2_shared_forward ex_collaborators ex_hparams ([0], [0]) ex_batch
          (mk_module ex_queue 0))
     = Inr [(''loss'', 11), (''clip_loss'', 3), (''ssl_loss'', 4)] \<and>
   map fst [(''loss'', 11 :: real), (''clip_loss'', 3), (''ssl_loss'', 4)]
     = [''loss'', ''clip_loss'', ''ssl_loss'']"
proof -
  note r = ex_run
  from shared_forward_keys[THEN conjunct1, rule_format, OF r]
  show ?thesis using r by simp
qed

text \<open>
  The claim as stated fails for VICReg: its loss combines an invariance, a variance
  and a covariance term (spec, section 4.5), and the mapping it returns has no entry
  besides \<^verbatim>\<open>loss\<close>.
\<close>

theorem vicreg_returns_loss_only:
  "vicreg_shared_forward ex_collaborators ex_hparams
      ([Tensor2 (1, 2) [[3, 4]]], [Tensor2 (1, 2) [[4, 3]]])
      \<lparr>vicreg_img_backbone = (), vicreg_projector = ()\<rparr>
     = [(''loss'', 7)] \<and>
   sub_losses (vicreg_shared_forward ex_collaborators ex_hparams
      ([Tensor2 (1, 2) [[3, 4]]], [Tensor2 (1, 2) [[4, 3]]])
      \<lparr>vicreg_img_backbone = (), vicreg_projector = ()\<rparr>) = []"
  by (simp add: vicreg_shared_forward_def sub_losses_def ex_collaborators_def Let_def)

section \<open>The queries of SLIP+MoCo-v2\<close>

text \<open>
  Claim C3 does not hold of the source. With identity backbone and projector and the
  views \<open>(3, 4)\<close> and \<open>(4, 3)\<close>, the second query handed to the MoCo-v2 losses is
  \<open>(3/5, 4/5)\<close>, the normalisation of the first view's projection, whereas the
  normalisation of the second view's projection is \<open>(4/5, 3/5)\<close>.
\<close>

theorem second_query_from_first_view:
  "snd (mocov2_queries ex_collaborators (mk_module ex_queue 0)
          (Tensor2 (1, 2) [[3, 4]]) (Tensor2 (1, 2) [[4, 3]]))
     = Tensor2 (1, 2) [[3/5, 4/5]] \<and>
   normalize_dim1
     (head_forward ex_collaborators (mocov2_projector (mk_module ex_queue 0))
        (img_forward ex_collaborators (img_backbone (mk_module ex_queue 0))
           (Tensor2 (1, 2) [[4, 3]])))
     = Tensor2 (1, 2) [[4/5, 3/5]]"
proof
  show "snd (mocov2_queries ex_collaborators (mk_module ex_queue 0)
          (Tensor2 (1, 2) [[3, 4]]) (Tensor2 (1, 2) [[4, 3]]))
     = Tensor2 (1, 2) [[3/5, 4/5]]"
    by (simp only: ex_queries snd_conv)
  show "normalize_dim1
     (head_forward ex_collaborators (mocov2_projector (mk_module ex_queue 0))
        (img_forward ex_collaborators (img_backbone (mk_module ex_queue 0))
           (Tensor2 (1, 2) [[4, 3]])))
     = Tensor2 (1, 2) [[4/5, 3/5]]"
    by (simp add: ex_defs eval_defs)
qed

section \<open>The initial queue\<close>

text \<open>
  Claim C8 does not hold of the source. The queue is normalised along dimension 0, the
  two streams, so the pair of entries at the same place of both streams has norm 1; a
  column \<open>Q[s, :, c]\<close> need not. From the drawn tensor with columns \<open>(3, 3)\<close> and
  \<open>(4, 4)\<close> the constructed queue has the columns \<open>(3/5, 3/5)\<close> and \<open>(4/5, 4/5)\<close>; the
  square of the norm of the first is \<open>18/25\<close>.
\<close>

theorem queue_normalized_across_streams:
  "randn_ok (mk_hparams 1\<lparr>mocov2_proj_output_dim := 2\<rparr>)
      (Tensor3 (2, 2, 1) [[[3], [3]], [[4], [4]]]) \<and>
   heap (build_model (mk_hparams 1\<lparr>mocov2_proj_output_dim := 2\<rparr>) () () () () ()
           (Tensor3 (2, 2, 1) [[[3], [3]], [[4], [4]]]))
     ! queue (build_model (mk_hparams 1\<lparr>mocov2_proj_output_dim := 2\<rparr>) () () () () ()
           (Tensor3 (2, 2, 1) [[[3], [3]], [[4], [4]]]))
     = Tensor3 (2, 2, 1) [[[3/5], [3/5]], [[4/5], [4/5]]] \<and>
   column (Tensor3 (2, 2, 1) [[[3/5], [3/5]], [[4/5], [4/5]]] :: real tensor3) 0 0 = [3/5, 3/5] \<and>
   (l2norm [3/5, 3/5])\<^sup>2 = 18/25 \<and>
   l2norm [3/5, 3/5] \<noteq> 1"
proof -
  have a: "randn_ok (mk_hparams 1\<lparr>mocov2_proj_output_dim := 2\<rparr>)
      (Tensor3 (2, 2, 1) [[[3], [3]], [[4], [4]]])"
    by (simp add: randn_ok_def wf3_def mk_hparams_def)
  have b: "heap (build_model (mk_hparams 1\<lparr>mocov2_proj_output_dim := 2\<rparr>) () () () () ()
           (Tensor3 (2, 2, 1) [[[3], [3]], [[4], [4]]]))
     ! queue (build_model (mk_hparams 1\<lparr>mocov2_proj_output_dim := 2\<rparr>) () () () () ()
           (Tensor3 (2, 2, 1) [[[3], [3]], [[4], [4]]]))
     = Tensor3 (2, 2, 1) [[[3/5], [3/5]], [[4/5], [4/5]]]"
    by (simp add: build_model_def eval_defs)
  have c: "column (Tensor3 (2, 2, 1) [[[3/5], [3/5]], [[4/5], [4/5]]] :: real tensor3) 0 0 = [3/5, 3/5]"
    by (simp add: column_def at3_def upt_conv_Cons)
  have d: "(l2norm [3/5, 3/5])\<^sup>2 = 18/25"
    by (simp add: l2norm_def power2_eq_square)
  have e: "l2norm [3/5, 3/5] \<noteq> 1"
  proof
    assume "l2norm [3/5, 3/5] = 1"
    then have "(l2norm [3/5, 3/5])\<^sup>2 = 1" by simp
    then show False using d by simp
  qed
  show ?thesis using a b c d e by blast
qed

section \<open>The snapshot of the queue\<close>

lemma ema_step_frame:
  "heap (ema_step E hp m) = heap m" "queue (ema_step E hp m) = queue m"
  "queue_ptr (ema_step E hp m) = queue_ptr m"
  "img_backbone (ema_step E hp m) = img_backbone m"
  "mocov2_projector (ema_step E hp m) = mocov2_projector m"
  by (simp_all add: ema_step_def Let_def)

lemma slip_mocov2_steps:
  assumes "slip_mocov2_shared_forward E hp rnd (i1, i2, txt) m = (Inr d, m')"
  shows "\<exists>n1 n0 keys.
     select0 (heap m ! queue m) 1 = Inr n1 \<and> select0 (heap m ! queue m) 0 = Inr n0 \<and>
     stack2 (gather E (fst (mocov2_keys E rnd (ema_step E hp m) (stack_images E i1) (stack_images E i2))))
            (gather E (snd (mocov2_keys E rnd (ema_step E hp m) (stack_images E i1) (stack_images E i2))))
       = Inr keys \<and>
     dequeue_and_enqueue hp keys ((ema_step E hp m)\<lparr>heap := heap m @ [heap m ! queue m]\<rparr>)
       = (Inr (), m') \<and>
     map_of d ''ssl_loss'' = Some
       ((mocov2_loss E
           (fst (mocov2_queries E (ema_step E hp m) (stack_images E i1) (stack_images E i2)))
           (snd (mocov2_keys E rnd (ema_step E hp m) (stack_images E i1) (stack_images E i2)))
           n1 (temperature_mocov2 hp)
         + mocov2_loss E
           (snd (mocov2_queries E (ema_step E hp m) (stack_images E i1) (stack_images E i2)))
           (fst (mocov2_keys E rnd (ema_step E hp m) (stack_images E i1) (stack_images E i2)))
           n0 (temperature_mocov2 hp)) / 2)"
  using assms
  by (auto simp: slip_mocov2_shared_forward_def Let_def clone_detach_def ema_step_frame
           split: prod.splits sum.splits)

text \<open>
  The step returns whenever the queue is allocated with shape \<open>(2, D, C)\<close>, the two
  gathered key matrices have the shape \<open>(b, D)\<close> with \<open>b\<close> a positive divisor of \<open>C\<close>,
  and \<open>b\<close> columns fit at the pointer.
\<close>

lemma slip_mocov2_returns:
  assumes ok: "queue_ok hp m D C"
    and k1: "shape2 (gather E (fst (mocov2_keys E rnd (ema_step E hp m)
                 (stack_images E i1) (stack_images E i2)))) = (b, D)"
    and k2: "shape2 (gather E (snd (mocov2_keys E rnd (ema_step E hp m)
                 (stack_images E i1) (stack_images E i2)))) = (b, D)"
    and b: "0 < b" "b dvd C"
    and p: "0 \<le> queue_ptr m" "queue_ptr m + int b \<le> int C"
  shows "\<exists>d m'. slip_mocov2_shared_forward E hp rnd (i1, i2, txt) m = (Inr d, m')"
proof -
  let ?K = "mocov2_keys E rnd (ema_step E hp m) (stack_images E i1) (stack_images E i2)"
  let ?M = "(ema_step E hp m)\<lparr>heap := heap m @ [heap m ! queue m]\<rparr>"
  let ?keys = "tabulate3 (2, b, D)
      (\<lambda>s i j. if s = 0 then at2 (gather E (fst ?K)) i j else at2 (gather E (snd ?K)) i j)"
  have len: "queue m < length (heap m)" and sh: "shape3 (heap m ! queue m) = (2, D, C)"
    using ok by (simp_all add: queue_ok_def)
  have st: "stack2 (gather E (fst ?K)) (gather E (snd ?K)) = Inr ?keys"
    using k1 k2 by (simp add: stack2_def)
  have kok: "keys_ok ?keys b D"
    by (simp add: keys_ok_def wf3_tabulate3 shape3_tabulate3)
  have okM: "queue_ok hp ?M D C"
    using ok by (simp add: queue_ok_def ema_step_frame nth_append)
  have pM: "0 \<le> queue_ptr ?M" "queue_ptr ?M + int b \<le> int C"
    using p by (simp_all add: ema_step_frame)
  obtain m' where en: "dequeue_and_enqueue hp ?keys ?M = (Inr (), m')"
    using enqueue_step[OF okM kok b pM] by blast
  obtain n1 where n1: "select0 (heap m ! queue m) 1 = Inr n1"
    using sh by (simp add: select0_def)
  obtain n0 where n0: "select0 (heap m ! queue m) 0 = Inr n0"
    using sh by (simp add: select0_def)
  have snap: "(heap m @ [heap m ! queue m]) ! length (heap m) = heap m ! queue m"
    by simp
  show ?thesis
    using st en n1 n0 snap
    by (simp add: slip_mocov2_shared_forward_def Let_def clone_detach_def ema_step_frame
        case_prod_beta)
qed

text \<open>
  Claim C9. When a step of SLIP+MoCo-v2 returns, the copy of the queue lives at a new
  address, different from the address of the queue buffer. After the step, which
  includes the enqueue, the copy still holds the queue as it was before the step; the
  negatives of the two MoCo-v2 losses are the streams 1 and 0 of that copy, so the
  reported \<^verbatim>\<open>ssl_loss\<close> is the one computed from the queue before the enqueue. The
  enqueue writes the stacked keys into the queue buffer; no other tensor that existed
  before the step changes, and of the module only the store, the pointer and the
  momentum copies updated at the start of the step differ.
\<close>

theorem snapshot_survives_enqueue:
  assumes "slip_mocov2_shared_forward E hp rnd (i1, i2, txt) m = (Inr d, m')"
    and "queue m < length (heap m)"
  shows "\<exists>n1 n0 keys q'.
     length (heap m) \<noteq> queue m' \<and> queue m' = queue m \<and>
     length (heap m') = Suc (length (heap m)) \<and>
     heap m' ! length (heap m) = heap m ! queue m \<and>
     select0 (heap m' ! length (heap m)) 1 = Inr n1 \<and>
     select0 (heap m' ! length (heap m)) 0 = Inr n0 \<and>
     map_of d ''ssl_loss'' = Some
       ((mocov2_loss E
           (fst (mocov2_queries E (ema_step E hp m) (stack_images E i1) (stack_images E i2)))
           (snd (mocov2_keys E rnd (ema_step E hp m) (stack_images E i1) (stack_images E i2)))
           n1 (temperature_mocov2 hp)
         + mocov2_loss E
           (snd (mocov2_queries E (ema_step E hp m) (stack_images E i1) (stack_images E i2)))
           (fst (mocov2_keys E rnd (ema_step E hp m) (stack_images E i1) (stack_images E i2)))
           n0 (temperature_mocov2 hp)) / 2) \<and>
     stack2 (gather E (fst (mocov2_keys E rnd (ema_step E hp m) (stack_images E i1) (stack_images E i2))))
            (gather E (snd (mocov2_keys E rnd (ema_step E hp m) (stack_images E i1) (stack_images E i2))))
       = Inr keys \<and>
     setitem_dim2 (heap m ! queue m) (queue_ptr m)
        (queue_ptr m + int (fst (snd (shape3 keys)))) (permute_021 keys) = Inr q' \<and>
     heap m' ! queue m' = q' \<and>
     (\<forall>a<length (heap m). a \<noteq> queue m \<longrightarrow> heap m' ! a = heap m ! a) \<and>
     m' = (ema_step E hp m)\<lparr>heap := heap m', queue_ptr := queue_ptr m'\<rparr>"
proof -
  let ?M = "(ema_step E hp m)\<lparr>heap := heap m @ [heap m ! queue m]\<rparr>"
  from slip_mocov2_steps[OF assms(1)]
  obtain n1 n0 keys where
    n1: "select0 (heap m ! queue m) 1 = Inr n1" and n0: "select0 (heap m ! queue m) 0 = Inr n0"
    and st: "stack2 (gather E (fst (mocov2_keys E rnd (ema_step E hp m) (stack_images E i1) (stack_images E i2))))
            (gather E (snd (mocov2_keys E rnd (ema_step E hp m) (stack_images E i1) (stack_images E i2))))
       = Inr keys"
    and en: "dequeue_and_enqueue hp keys ?M = (Inr (), m')"
    and ls: "map_of d ''ssl_loss'' = Some
       ((mocov2_loss E
           (fst (mocov2_queries E (ema_step E hp m) (stack_images E i1) (stack_images E i2)))
           (snd (mocov2_keys E rnd (ema_step E hp m) (stack_images E i1) (stack_images E i2)))
           n1 (temperature_mocov2 hp)
         + mocov2_loss E
           (snd (mocov2_queries E (ema_step E hp m) (stack_images E i1) (stack_images E i2)))
           (fst (mocov2_keys E rnd (ema_step E hp m) (stack_images E i1) (stack_images E i2)))
           n0 (temperature_mocov2 hp)) / 2)"
    by blast
  have hM: "heap ?M = heap m @ [heap m ! queue m]" and qM: "queue ?M = queue m"
    and pM: "queue_ptr ?M = queue_ptr m"
    by (simp_all add: ema_step_frame)
  have old: "heap ?M ! queue ?M = heap m ! queue m"
    using assms(2) by (simp add: hM qM nth_append)
  from enqueue_returns[OF en] obtain q' where
    si: "setitem_dim2 (heap ?M ! queue ?M) (queue_ptr ?M)
           (queue_ptr ?M + int (fst (snd (shape3 keys)))) (permute_021 keys) = Inr q'"
    and m': "m' = ?M\<lparr>heap := (heap ?M)[queue ?M := q'],
            queue_ptr := (queue_ptr ?M + int (fst (snd (shape3 keys)))) mod queue_size hp\<rparr>"
    by blast
  have hm': "heap m' = (heap m @ [heap m ! queue m])[queue m := q']"
    unfolding m' by (simp add: ema_step_frame)
  have qm': "queue m' = queue m" unfolding m' by (simp add: ema_step_frame)
  have snap: "heap m' ! length (heap m) = heap m ! queue m"
    using assms(2) unfolding hm' by simp
  have 1: "length (heap m) \<noteq> queue m'" using assms(2) qm' by simp
  have 2: "length (heap m') = Suc (length (heap m))" unfolding hm' by simp
  have 3: "setitem_dim2 (heap m ! queue m) (queue_ptr m)
        (queue_ptr m + int (fst (snd (shape3 keys)))) (permute_021 keys) = Inr q'"
    using si unfolding old pM .
  have 4: "heap m' ! queue m' = q'" using assms(2) unfolding hm' qm' by simp
  have 5: "\<forall>a<length (heap m). a \<noteq> queue m \<longrightarrow> heap m' ! a = heap m ! a"
    unfolding hm' by (simp add: nth_append)
  have 6: "m' = (ema_step E hp m)\<lparr>heap := heap m', queue_ptr := queue_ptr m'\<rparr>"
    unfolding m' by simp
  show ?thesis
    using 1 qm' 2 snap n1 n0 ls st 3 4 5 6 by (simp only: snap) blast
qed

theorem snapshot_survives_enqueue_witness:
  "queue (mk_module ex_queue 0) < length (heap (mk_module ex_queue 0)) \<and>
   fst (slip_mocov2_shared_forward ex_collaborators ex_hparams ([0], [0]) ex_batch
          (mk_module ex_queue 0))
     = Inr [(''loss'', 11), (''clip_loss'', 3), (''ssl_loss'', 4)] \<and>
   heap (snd (slip_mocov2_shared_forward ex_collaborators ex_hparams ([0], [0]) ex_batch
          (mk_module ex_queue 0))) ! length (heap (mk_module ex_queue 0)) = ex_queue \<and>
   heap (snd (slip_mocov2_shared_forward ex_collaborators ex_hparams ([0], [0]) ex_batch
          (mk_module ex_queue 0))) ! queue (mk_module ex_queue 0)
     = Tensor3 (2, 2, 4) [[[3/5, 0, 1, 0], [4/5, 1, 0, 1]], [[4/5, 1, 0, 1], [3/5, 0, 1, 0]]]"
proof -
  let ?r = "slip_mocov2_shared_forward ex_collaborators ex_hparams ([0], [0]) ex_batch
          (mk_module ex_queue 0)"
  have h: "queue (mk_module ex_queue 0) < length (heap (mk_module ex_queue 0))"
    by (simp add: mk_module_def)
  have q: "heap (mk_module ex_queue 0) ! queue (mk_module ex_queue 0) = ex_queue"
    by (simp add: mk_module_def)
  have pr: "?r = (fst ?r, snd ?r)" by simp
  have f: "fst ?r = Inr [(''loss'', 11), (''clip_loss'', 3), (''ssl_loss'', 4)]"
    by (simp only: ex_run fst_conv)
  have r: "slip_mocov2_shared_forward ex_collaborators ex_hparams ([0], [0])
      ([Tensor2 (1, 2) [[3, 4]]], [Tensor2 (1, 2) [[4, 3]]], ()) (mk_module ex_queue 0)
     = (Inr [(''loss'', 11), (''clip_loss'', 3), (''ssl_loss'', 4)], snd ?r)"
    using pr f by (simp only: ex_batch_def)
  from snapshot_survives_enqueue[OF r h]
  have s: "heap (snd ?r) ! length (heap (mk_module ex_queue 0)) = ex_queue"
    unfolding q by blast
  have n: "heap (snd ?r) ! queue (mk_module ex_queue 0)
     = Tensor3 (2, 2, 4) [[[3/5, 0, 1, 0], [4/5, 1, 0, 1]], [[4/5, 1, 0, 1], [3/5, 0, 1, 0]]]"
    by (simp add: ex_run) (simp add: mk_module_def)
  show ?thesis using h f s n by blast
qed

section \<open>Parameter groups\<close>

text \<open>
  Claim C10. SLIP+MoCo-v2's \<^verbatim>\<open>learnable_params\<close> returns exactly two groups, the image
  backbone tagged \<^verbatim>\<open>backbone\<close> and the MoCo-v2 projector tagged \<^verbatim>\<open>projector\<close>; the
  text backbone and the two CLIP projectors own none of the groups. SLIP+SimCLR's
  returns five groups: both backbones and the three projectors. Both queries return
  the module unchanged.
\<close>

theorem learnable_params_groups:
  "slip_mocov2_learnable_params m =
     ([\<lparr>group_type = ''backbone'', owner = Img_backbone, params = img_backbone m\<rparr>,
       \<lparr>group_type = ''projector'', owner = Mocov2_projector, params = mocov2_projector m\<rparr>],
      m) \<and>
   Text_backbone \<notin> owner ` set (fst (slip_mocov2_learnable_params m)) \<and>
   Img_projector \<notin> owner ` set (fst (slip_mocov2_learnable_params m)) \<and>
   Text_projector \<notin> owner ` set (fst (slip_mocov2_learnable_params m)) \<and>
   slip_simclr_learnable_params n =
     ([\<lparr>group_type = ''backbone'', owner = Img_backbone, params = simclr_img_backbone n\<rparr>,
       \<lparr>group_type = ''backbone'', owner = Text_backbone, params = simclr_text_backbone n\<rparr>,
       \<lparr>group_type = ''projector'', owner = Img_projector, params = simclr_img_projector n\<rparr>,
       \<lparr>group_type = ''projector'', owner = Text_projector, params = simclr_text_projector n\<rparr>,
       \<lparr>group_type = ''projector'', owner = Simclr_projector, params = simclr_projector n\<rparr>],
      n) \<and>
   length (fst (slip_mocov2_learnable_params m)) = 2 \<and>
   length (fst (slip_simclr_learnable_params n)) = 5"
  by (simp add: slip_mocov2_learnable_params_def slip_simclr_learnable_params_def)

section \<open>Shuffle and unshuffle\<close>

lemma index_of_member:
  assumes "x \<in> set p"
  shows "index_of p x < length p" "p ! index_of p x = x"
proof -
  show lt: "index_of p x < length p"
    using assms unfolding index_of_def by (induction p) auto
  have "\<not> (p ! index_of p x \<noteq> x)"
    using lt unfolding index_of_def by (rule nth_length_takeWhile)
  then show "p ! index_of p x = x" by simp
qed

lemma is_permutation_member:
  "is_permutation p n \<Longrightarrow> i < n \<Longrightarrow> i \<in> set p"
  by (simp add: is_permutation_def list_all_iff)

lemma length_rank_slice:
  "length xs = W * b \<Longrightarrow> r < W \<Longrightarrow> length (rank_slice b r xs) = b"
proof -
  assume l: "length xs = W * b" and r: "r < W"
  then have "r * b + b \<le> W * b" by (metis Suc_leI mult_Suc mult_le_mono1 add.commute)
  then show ?thesis using l by (simp add: rank_slice_def)
qed

lemma nth_rank_slice:
  "length xs = W * b \<Longrightarrow> r < W \<Longrightarrow> i < b \<Longrightarrow> rank_slice b r xs ! i = xs ! (r * b + i)"
proof -
  assume l: "length xs = W * b" and r: "r < W" and i: "i < b"
  then have "r * b + b \<le> W * b" by (metis Suc_leI mult_Suc mult_le_mono1 add.commute)
  then have "r * b \<le> length xs" using l by linarith
  then show ?thesis using i by (simp add: rank_slice_def nth_drop)
qed

lemma map_rank_slice: "map f (rank_slice b r xs) = rank_slice b r (map f xs)"
  by (simp add: rank_slice_def take_map drop_map)

lemma concat_rank_slices:
  assumes "length xs = W * b"
  shows "concat (map (\<lambda>r. rank_slice b r xs) [0..<W]) = xs"
proof (rule nth_equalityI)
  let ?xss = "map (\<lambda>r. rank_slice b r xs) [0..<W]"
  have uni: "\<forall>ys\<in>set ?xss. length ys = b"
    using length_rank_slice[OF assms] by auto
  show len: "length (concat ?xss) = length xs"
    using length_concat_uniform[OF uni] assms by simp
  fix c assume "c < length (concat ?xss)"
  then have c: "c < W * b" using len assms by simp
  then have b: "0 < b" by (cases b) auto
  have j: "c div b < W" using c by (metis less_mult_imp_div_less)
  have i: "c mod b < b" using b by simp
  have "concat ?xss ! c = ?xss ! (c div b) ! (c mod b)"
    using uni c by (intro nth_concat_uniform) simp_all
  also have "\<dots> = rank_slice b (c div b) xs ! (c mod b)" using j by simp
  also have "\<dots> = xs ! (c div b * b + c mod b)" using assms j i by (rule nth_rank_slice)
  finally show "concat ?xss ! c = xs ! c" by simp
qed

lemma rank_slice_concat:
  assumes "\<forall>x\<in>set world. length x = b" "r < length world"
  shows "rank_slice b r (concat world) = world ! r"
proof (rule nth_equalityI)
  have l: "length (concat world) = length world * b"
    using assms(1) by (rule length_concat_uniform)
  show len: "length (rank_slice b r (concat world)) = length (world ! r)"
    using length_rank_slice[OF l assms(2)] assms by simp
  fix i assume "i < length (rank_slice b r (concat world))"
  then have i: "i < b" using length_rank_slice[OF l assms(2)] by simp
  have lt: "r * b + i < length world * b"
  proof -
    have "r * b + b \<le> length world * b"
      using assms(2) by (metis Suc_leI mult_Suc mult_le_mono1 add.commute)
    then show ?thesis using i by linarith
  qed
  have d: "(r * b + i) div b = r" "(r * b + i) mod b = i" using i by simp_all
  have "rank_slice b r (concat world) ! i = concat world ! (r * b + i)"
    using l assms(2) i by (rule nth_rank_slice)
  also have "\<dots> = world ! ((r * b + i) div b) ! ((r * b + i) mod b)"
    using assms(1) lt by (rule nth_concat_uniform)
  finally show "rank_slice b r (concat world) ! i = world ! r ! i" using d by simp
qed

lemma reorder_by_argsort:
  assumes "is_permutation p (length g)"
  shows "map (\<lambda>i. map (\<lambda>j. g ! j) p ! i) (argsort p) = g"
proof (rule nth_equalityI)
  have lp: "length p = length g" using assms by (simp add: is_permutation_def)
  show "length (map (\<lambda>i. map (\<lambda>j. g ! j) p ! i) (argsort p)) = length g"
    using lp by (simp add: argsort_def)
  fix i assume "i < length (map (\<lambda>i. map (\<lambda>j. g ! j) p ! i) (argsort p))"
  then have i: "i < length g" using lp by (simp add: argsort_def)
  then have mem: "i \<in> set p" using assms by (rule is_permutation_member[rotated])
  have "map (\<lambda>i. map (\<lambda>j. g ! j) p ! i) (argsort p) ! i = map (\<lambda>j. g ! j) p ! index_of p i"
    using i lp by (simp add: argsort_def)
  also have "\<dots> = g ! (p ! index_of p i)" using index_of_member(1)[OF mem] by simp
  also have "\<dots> = g ! i" using index_of_member(2)[OF mem] by simp
  finally show "map (\<lambda>i. map (\<lambda>j. g ! j) p ! i) (argsort p) ! i = g ! i" .
qed

text \<open>
  Claim C2. For at least one replica, batches of one size on every replica and a
  permutation of the global batch indices, unshuffling the result of the shuffle with
  the inverse records the shuffle produced restores the batch of every replica.
\<close>

theorem unshuffle_shuffle:
  assumes "world \<noteq> []" "\<forall>x\<in>set world. length x = b"
    "is_permutation idx_shuffle (length world * b)"
  shows "unshuffle (shuffle idx_shuffle world) = world"
proof -
  let ?g = "concat world"
  let ?W = "length world"
  let ?sh = "map (\<lambda>i. ?g ! i) idx_shuffle"
  let ?inv = "argsort idx_shuffle"
  have lg: "length ?g = ?W * b" using assms(2) by (rule length_concat_uniform)
  have W: "0 < ?W" using assms(1) by simp
  have bs: "length ?g div ?W = b" using lg W by simp
  have lp: "length idx_shuffle = ?W * b" using assms(3) by (simp add: is_permutation_def)
  have lsh: "length ?sh = ?W * b" using lp by simp
  have sh: "shuffle idx_shuffle world
      = map (\<lambda>r. (rank_slice b r ?sh, rank_slice b r ?inv)) [0..<?W]"
    by (simp add: shuffle_def Let_def bs)
  have gath: "concat (map fst (shuffle idx_shuffle world)) = ?sh"
    unfolding sh using concat_rank_slices[OF lsh] by (simp add: comp_def)
  have perm: "is_permutation idx_shuffle (length ?g)" using assms(3) lg by simp
  have "unshuffle (shuffle idx_shuffle world)
      = map (\<lambda>r. map (\<lambda>i. ?sh ! i) (rank_slice b r ?inv)) [0..<?W]"
    unfolding unshuffle_def Let_def gath unfolding sh by (simp add: comp_def)
  also have "\<dots> = map (\<lambda>r. rank_slice b r (map (\<lambda>i. ?sh ! i) ?inv)) [0..<?W]"
    by (simp add: map_rank_slice)
  also have "\<dots> = map (\<lambda>r. rank_slice b r ?g) [0..<?W]"
    using reorder_by_argsort[OF perm] by simp
  also have "\<dots> = map (\<lambda>r. world ! r) [0..<?W]"
    using assms(2) by (simp add: rank_slice_concat)
  also have "\<dots> = world" by (rule map_nth)
  finally show ?thesis .
qed

theorem unshuffle_shuffle_witness:
  "is_permutation [2, 0, 3, 1, 5, 4] (length [[10, 11], [12, 13], [14, 15 :: nat]] * 2) \<and>
   shuffle [2, 0, 3, 1, 5, 4] [[10, 11], [12, 13], [14, 15 :: nat]]
     = [([12, 10], [1, 3]), ([13, 11], [0, 2]), ([15, 14], [5, 4])] \<and>
   unshuffle (shuffle [2, 0, 3, 1, 5, 4] [[10, 11], [12, 13], [14, 15 :: nat]])
     = [[10, 11], [12, 13], [14, 15]]"
proof -
  have h1: "[[10, 11], [12, 13], [14, 15 :: nat]] \<noteq> []" by simp
  have h2: "\<forall>x\<in>set [[10, 11], [12, 13], [14, 15 :: nat]]. length x = 2" by simp
  have h3: "is_permutation [2, 0, 3, 1, 5, 4] (length [[10, 11], [12, 13], [14, 15 :: nat]] * 2)"
    by code_simp
  have e: "shuffle [2, 0, 3, 1, 5, 4] [[10, 11], [12, 13], [14, 15 :: nat]]
     = [([12, 10], [1, 3]), ([13, 11], [0, 2]), ([15, 14], [5, 4])]"
    by code_simp
  from unshuffle_shuffle[OF h1 h2 h3] h3 e show ?thesis by simp
qed

end
